theory Spec2Isabelle
  imports Main
begin

section \<open>Data model\<close>

text \<open>
  The event record of the nostr library as the commands use it: \<open>nostr.Event\<close> with its
  fields \<open>ID\<close>, \<open>PubKey\<close>, \<open>CreatedAt\<close>, \<open>Kind\<close>, \<open>Tags\<close>, \<open>Content\<close> and
  \<open>Sig\<close>. A tag (\<open>nostr.Tag\<close>) is a slice of strings, the tag list (\<open>nostr.Tags\<close>) a slice
  of tags. Go's \<open>int\<close> and \<open>int64\<close> are modelled as \<open>int\<close>: the only arithmetic the
  commands perform on them is \<open>eventKind += 1\<close> on a constant and a comparison.
  A Go \<open>error\<close> is modelled by its message.
\<close>

type_synonym Tag = "string list"

record Event =
  ID :: string
  PubKey :: string
  CreatedAt :: int
  Kind :: int
  Tags :: "Tag list"
  Content :: string
  Sig :: string

text \<open>
  The signer capability \<open>nostr.Keyer\<close> as the commands call it: \<open>GetPublicKey\<close> returns
  a public key or an error, \<open>SignEvent\<close> the signed event or an error.
\<close>

record Keyer =
  GetPublicKey :: "string + string"
  SignEvent :: "Event \<Rightarrow> string + Event"

section \<open>String helpers of the Go runtime\<close>

text \<open>\<open>strings.HasPrefix(s, prefix)\<close>: \<open>len(s) >= len(prefix) && s[:len(prefix)] == prefix\<close>.\<close>

definition HasPrefix :: "string \<Rightarrow> string \<Rightarrow> bool" where
  "HasPrefix s pre = (length pre \<le> length s \<and> take (length pre) s = pre)"

text \<open>The verb \<open>%d\<close> of \<open>fmt.Sprintf\<close>: the decimal digits, with a minus sign below zero.\<close>

definition digit_char :: "nat \<Rightarrow> char" where
  "digit_char n = ''0123456789'' ! (n mod 10)"

fun dec_nat :: "nat \<Rightarrow> string" where
  "dec_nat n = (if n < 10 then [digit_char n] else dec_nat (n div 10) @ [digit_char n])"

definition Sprintf_d :: "int \<Rightarrow> string" where
  "Sprintf_d i = (if i < 0 then CHR ''-'' # dec_nat (nat (- i)) else dec_nat (nat i))"

section \<open>Proof of work\<close>

text \<open>
  Modelled from the spec: \<open>nip13.Difficulty\<close> of the nostr library is not under src/.
  Following section 4.3 of the specification it counts the leading zero bits of the
  identifier, a hexadecimal string read as a big-endian bit string.
\<close>

definition hex_val :: "char \<Rightarrow> nat option" where
  "hex_val c = map_of (zip ''0123456789abcdef'' [0 ..< 16]) c"

definition nibble_zeros :: "nat \<Rightarrow> nat" where
  "nibble_zeros v = (if v = 0 then 4 else if v < 2 then 3 else if v < 4 then 2 else if v < 8 then 1 else 0)"

fun Difficulty :: "string \<Rightarrow> nat" where
  "Difficulty [] = 0"
| "Difficulty (c # cs) =
     (case hex_val c of
        None \<Rightarrow> 0
      | Some v \<Rightarrow> if v = 0 then 4 + Difficulty cs else nibble_zeros v)"

text \<open>
  Modelled from the spec: \<open>nip13.DoWork\<close>, the nonce search of the nostr library that
  \<open>Pow\<close> calls, is not under src/. Following section 4.3 of the specification it assigns
  an incremented nonce value inside a \<open>nonce\<close> tag (tag name, nonce as a decimal string,
  target difficulty as a decimal string), recomputes the identifier of the event carrying
  that tag, and stops when the identifier has at least the target number of leading
  zero bits, returning the winning tag. No bound is imposed on the number of attempts, so
  the search is a partial function: \<open>None\<close> is a search that never ends. The identifier
  function \<open>getID\<close> (a SHA-256 over the canonical serialization) is a parameter.
\<close>

definition nonce_tag :: "nat \<Rightarrow> int \<Rightarrow> Tag" where
  "nonce_tag n targetDifficulty = [''nonce'', dec_nat n, Sprintf_d targetDifficulty]"

partial_function (option) nonce_search :: "(Event \<Rightarrow> string) \<Rightarrow> Event \<Rightarrow> int \<Rightarrow> nat \<Rightarrow> Tag option" where
  "nonce_search getID event targetDifficulty n =
     (if targetDifficulty \<le> int (Difficulty (getID (event\<lparr>Tags := Tags event @ [nonce_tag n targetDifficulty]\<rparr>)))
      then Some (nonce_tag n targetDifficulty)
      else nonce_search getID event targetDifficulty (Suc n))"

definition DoWork :: "(Event \<Rightarrow> string) \<Rightarrow> Event \<Rightarrow> int \<Rightarrow> (string + Tag) option" where
  "DoWork getID event targetDifficulty =
     (case nonce_search getID event targetDifficulty 0 of
        None \<Rightarrow> None
      | Some tag \<Rightarrow> Some (Inr tag))"

text \<open>
  \<open>Pow\<close> of the utils package. The library call is the parameter \<open>doWork\<close>; its result is
  \<open>None\<close> when the search does not return, an error, or the nonce tag. The Go function
  updates the event in place; the model returns the updated event.
\<close>

definition Pow_event :: "(Event \<Rightarrow> int \<Rightarrow> (string + Tag) option) \<Rightarrow> Event \<Rightarrow> int \<Rightarrow> (string + Event) option" where
  "Pow_event doWork event diff =
     (if diff > 0 then
        (case doWork event diff of
           None \<Rightarrow> None
         | Some (Inl err) \<Rightarrow> Some (Inl (''error generating proof of work: '' @ err))
         | Some (Inr nounce) \<Rightarrow> Some (Inr (event\<lparr>Tags := Tags event @ [nounce]\<rparr>)))
      else Some (Inr event))"

section \<open>Building the events\<close>

text \<open>
  \<open>createNip71Event\<close> of cmd/nip71. The package variables it reads (\<open>isLegacy\<close>,
  \<open>diff\<close>, \<open>signer\<close>), the clock (\<open>nostr.Now()\<close>) and the library's nonce search are
  the leading parameters; the others are the Go parameters in their order.
\<close>

definition createNip71Event ::
  "bool \<Rightarrow> int \<Rightarrow> Keyer \<Rightarrow> int \<Rightarrow> (Event \<Rightarrow> int \<Rightarrow> (string + Tag) option) \<Rightarrow>
   int \<Rightarrow> int \<Rightarrow> int \<Rightarrow> string \<Rightarrow> string \<Rightarrow> string \<Rightarrow> string \<Rightarrow> string \<Rightarrow> string \<Rightarrow> string \<Rightarrow> string \<Rightarrow>
   (string + Event) option" where
  "createNip71Event isLegacy diff signer now doWork
     height width fileSize videoHash bhash mime title publishedAt videoURL description descriptor =
     (let eventKind0 = (if isLegacy then 34235 else 21);
          eventKind = (if height > width then eventKind0 + 1 else eventKind0);
          alt = (if height > width then ''Vertical Video'' else ''Horizontal Video'');
          dTag = (if descriptor \<noteq> '''' then descriptor else videoHash)
      in case GetPublicKey signer of
           Inl err \<Rightarrow> Some (Inl (''Error getting public key: '' @ err))
         | Inr pubKey \<Rightarrow>
             (let event = \<lparr>ID = '''', PubKey = pubKey, CreatedAt = now, Kind = eventKind,
                           Tags = [[''alt'', alt],
                                   [''title'', title],
                                   [''published_at'', publishedAt],
                                   [''imeta'',
                                    ''url '' @ videoURL,
                                    ''m '' @ mime,
                                    ''alt '' @ alt,
                                    ''x '' @ videoHash,
                                    ''size '' @ Sprintf_d fileSize,
                                    ''dim '' @ Sprintf_d width @ ''x'' @ Sprintf_d height,
                                    ''blurhash '' @ bhash]],
                           Content = description, Sig = ''''\<rparr>;
                  event1 = (if isLegacy then event\<lparr>Tags := Tags event @ [[''d'', dTag]]\<rparr> else event)
              in case Pow_event doWork event1 diff of
                   None \<Rightarrow> None
                 | Some (Inl err) \<Rightarrow> Some (Inl (''Error calculating proof of work: '' @ err))
                 | Some (Inr event2) \<Rightarrow> Some (Inr event2)))"

text \<open>
  \<open>createNip68Event\<close> of cmd/nip68, with its package variables \<open>diff\<close> and \<open>signer\<close>,
  the clock and the nonce search as leading parameters.
\<close>

definition createNip68Event ::
  "int \<Rightarrow> Keyer \<Rightarrow> int \<Rightarrow> (Event \<Rightarrow> int \<Rightarrow> (string + Tag) option) \<Rightarrow>
   Tag list \<Rightarrow> string \<Rightarrow> string \<Rightarrow> string \<Rightarrow> (string + Event) option" where
  "createNip68Event diff signer now doWork imetaTags title publishedAt description =
     (let eventKind = 20;
          tags = [[''title'', title], [''published_at'', publishedAt]] @ imetaTags
      in case GetPublicKey signer of
           Inl err \<Rightarrow> Some (Inl (''Error getting public key: '' @ err))
         | Inr pubKey \<Rightarrow>
             (let event = \<lparr>ID = '''', PubKey = pubKey, CreatedAt = now, Kind = eventKind,
                           Tags = tags, Content = description, Sig = ''''\<rparr>
              in case Pow_event doWork event diff of
                   None \<Rightarrow> None
                 | Some (Inl err) \<Rightarrow> Some (Inl (''Error calculating proof of work: '' @ err))
                 | Some (Inr event2) \<Rightarrow> Some (Inr event2)))"

text \<open>
  \<open>addImageIMetaTag\<close> of cmd/nip68. \<open>utils.ExtractMediaInfo\<close> only reads the file
  system and calls the media libraries, so its result (width, height, file size, file
  hash, blurhash, MIME type, or an error) is the parameter \<open>extractMediaInfo\<close>. The
  \<open>log.Fatalf\<close> is the \<open>Inl\<close> result, with its message.
\<close>

definition addImageIMetaTag ::
  "(string \<Rightarrow> string \<Rightarrow> string + (int \<times> int \<times> int \<times> string \<times> string \<times> string)) \<Rightarrow>
   string \<Rightarrow> string \<Rightarrow> string + Tag" where
  "addImageIMetaTag extractMediaInfo imagePath imageURL =
     (case extractMediaInfo imagePath ''image'' of
        Inl err \<Rightarrow> Inl (''Error extracting image information: '' @ err)
      | Inr (width, height, _, fileHash, bhash, mime) \<Rightarrow>
          Inr [''imeta'',
               ''url '' @ imageURL,
               ''x '' @ fileHash,
               ''dim '' @ Sprintf_d width @ ''x'' @ Sprintf_d height,
               ''m '' @ mime,
               ''blurhash '' @ bhash])"

section \<open>Input validation\<close>

text \<open>
  \<open>ValidateInput\<close> of the utils package (the three-argument version the commands call).
  The two parsers of the Go standard library are parameters; each gives its error, or
  \<open>None\<close> for \<open>nil\<close> (the parsed value is discarded by the code). The result is the
  returned error, \<open>None\<close> for \<open>nil\<close>.
\<close>

definition ValidateInput ::
  "(string \<Rightarrow> string option) \<Rightarrow> (string \<Rightarrow> string option) \<Rightarrow> string \<Rightarrow> string \<Rightarrow> string \<Rightarrow> string option" where
  "ValidateInput parseRequestURI parseInt videoURL title publishedAt =
     (if videoURL = '''' then Some ''video URL cannot be empty''
      else if parseRequestURI videoURL \<noteq> None then Some ''invalid video URL''
      else if publishedAt = '''' then Some ''published_at cannot be empty''
      else if parseInt publishedAt \<noteq> None then Some ''invalid published_at timestamp''
      else None)"

section \<open>Key-format normalization\<close>

text \<open>
  A value of Go's \<open>interface{}\<close> as the code inspects it: a string, a \<open>float64\<close> (kept
  abstract in the type parameter), or a value of another dynamic type.
\<close>

datatype 'f any = AString string | AFloat64 'f | AOther

text \<open>How a call ends when it can also panic: a returned error, or a run-time panic.\<close>

datatype failure = Error string | Panic string

text \<open>
  \<open>ConvertNIP19ToHex\<close> of internal/utils/signer.go. \<open>nip19.Decode\<close> is a parameter that
  returns the prefix and the decoded value, or an error. The one-result type assertion
  \<open>decoded.(string)\<close> panics on a value that is not a string.
\<close>

definition ConvertNIP19ToHex :: "(string \<Rightarrow> string + (string \<times> 'f any)) \<Rightarrow> string \<Rightarrow> failure + string" where
  "ConvertNIP19ToHex decode key =
     (if HasPrefix key ''nsec'' then
        (case decode key of
           Inl err \<Rightarrow> Inl (Error (''failed to decode NIP-19 key: '' @ err))
         | Inr (_, decoded) \<Rightarrow>
             (case decoded of
                AString s \<Rightarrow> Inr s
              | _ \<Rightarrow> Inl (Panic ''interface conversion: interface {} is not string'')))
      else Inr key)"

section \<open>Publishing to relays\<close>

text \<open>
  What the publisher and the commands do that can be observed: the calls on the relay
  library (\<open>nostr.RelayConnect\<close>, \<open>relay.Publish\<close>, \<open>relay.Auth\<close>), each with the relay
  URL, the lines written (\<open>log.Printf\<close>, \<open>fmt.Printf\<close>), and the printed event.
\<close>

datatype action =
    Call_RelayConnect string
  | Call_Publish string
  | Call_Auth string
  | LogPrintf string
  | FmtPrintf string
  | PrintEvent Event

text \<open>
  The relay library, as a machine over connection states \<open>'s\<close>: \<open>RelayConnect\<close> gives
  a connection or an error; \<open>Publish\<close> and \<open>Auth\<close> give their error (\<open>None\<close> for
  \<open>nil\<close>) and the connection's next state. \<open>Auth\<close> receives the signing callback.
\<close>

record 's RelayLib =
  RelayConnect :: "string \<Rightarrow> string + 's"
  Publish :: "'s \<Rightarrow> Event \<Rightarrow> string option \<times> 's"
  Auth :: "'s \<Rightarrow> (Event \<Rightarrow> string + Event) \<Rightarrow> string option \<times> 's"

text \<open>
  \<open>PublishEvent\<close> of the utils package: the loop over the relays is the recursion, a
  \<open>continue\<close> is the recursive call on the remaining relays. The deferred \<open>cancel\<close>
  and \<open>relay.Close\<close> calls run when the function returns and write nothing.
\<close>

fun PublishEvent :: "'s RelayLib \<Rightarrow> Event \<Rightarrow> Keyer \<Rightarrow> string list \<Rightarrow> action list" where
  "PublishEvent lib event signer [] = []"
| "PublishEvent lib event signer (relayURL # relays) =
     Call_RelayConnect relayURL #
     (case RelayConnect lib relayURL of
        Inl err \<Rightarrow>
          LogPrintf (''Error connecting to relay '' @ relayURL @ '': '' @ err) #
          PublishEvent lib event signer relays
      | Inr relay \<Rightarrow>
          Call_Publish relayURL #
          (case Publish lib relay event of
             (None, _) \<Rightarrow>
               FmtPrintf (''Published event to relay '' @ relayURL @ '' successfully\<newline>'') #
               PublishEvent lib event signer relays
           | (Some err, relay1) \<Rightarrow>
               if HasPrefix err ''msg: auth-required:'' then
                 Call_Auth relayURL #
                 (case Auth lib relay1 (SignEvent signer) of
                    (Some authErr, _) \<Rightarrow>
                      LogPrintf (''Error sending auth event to relay '' @ relayURL @ '': '' @ authErr) #
                      PublishEvent lib event signer relays
                  | (None, relay2) \<Rightarrow>
                      Call_Publish relayURL #
                      (case Publish lib relay2 event of
                         (Some err2, _) \<Rightarrow>
                           LogPrintf (''Error publishing event to relay '' @ relayURL @ '' after auth: '' @ err2) #
                           PublishEvent lib event signer relays
                       | (None, _) \<Rightarrow>
                           FmtPrintf (''Published event to relay '' @ relayURL @ '' successfully after auth\<newline>'') #
                           PublishEvent lib event signer relays))
               else
                 LogPrintf (''Error publishing event to relay '' @ relayURL @ '': '' @ err) #
                 PublishEvent lib event signer relays))"

section \<open>The operating system and the libraries\<close>

text \<open>
  An opened file as \<open>UploadFile\<close> and \<open>LoadRelaysFromFile\<close> use it: its bytes, the
  error of copying it into the hasher (\<open>io.Copy\<close>), the result of \<open>file.Stat\<close> (the
  size) and the error of \<open>file.Read\<close>. Bytes are characters.
\<close>

record OsFile =
  Contents :: string
  CopyErr :: "string option"
  StatSize :: "string + int"
  ReadErr :: "string option"

text \<open>An HTTP request as \<open>UploadFile\<close> builds it, and the response it reads.\<close>

record Request =
  Method :: string
  ReqURL :: string
  Header :: "string \<rightharpoonup> string"
  Body :: string

record Response =
  StatusCode :: int
  RespBody :: string

text \<open>
  Everything the commands call outside the repository, one field per function, named
  after it: the clock (\<open>time.Now()\<close>, in nanoseconds since the epoch), the file system,
  the hash and encoding functions, the HTTP client, the JSON decoders, the key
  libraries, the standard parsers and the nonce search. \<open>DownloadVideo\<close> and
  \<open>ExtractMediaInfo\<close> of the utils package only perform input and output, so their
  results are fields too.
\<close>

record 'f Sys =
  time_Now :: int
  os_Open :: "string \<Rightarrow> string + OsFile"
  os_Stat :: "string \<Rightarrow> string option"
  sha256_Sum :: "string \<Rightarrow> string"
  hex_EncodeToString :: "string \<Rightarrow> string"
  filetype_Match :: "string \<Rightarrow> string + string"
  json_Marshal :: "Event \<Rightarrow> string + string"
  base64_EncodeToString :: "string \<Rightarrow> string"
  http_NewRequest :: "string \<Rightarrow> string \<Rightarrow> string option"
  client_Do :: "Request \<Rightarrow> string + Response"
  json_Decode :: "string \<Rightarrow> string + (string \<rightharpoonup> 'f any)"
  json_Decode_strings :: "string \<Rightarrow> string + string list"
  int64_of_float64 :: "'f \<Rightarrow> int"
  nip19_Decode :: "string \<Rightarrow> string + (string \<times> 'f any)"
  keyer_NewPlainKeySigner :: "string \<Rightarrow> string + Keyer"
  url_ParseRequestURI :: "string \<Rightarrow> string option"
  strconv_ParseInt :: "string \<Rightarrow> string option"
  nip13_DoWork :: "Event \<Rightarrow> int \<Rightarrow> (string + Tag) option"
  DownloadVideo :: "string \<Rightarrow> string + string"
  ExtractMediaInfo :: "string \<Rightarrow> string \<Rightarrow> string + (int \<times> int \<times> int \<times> string \<times> string \<times> string)"

text \<open>\<open>Time.Unix()\<close> on nanoseconds since the epoch, and \<open>time.Minute\<close>.\<close>

definition Unix :: "int \<Rightarrow> int" where
  "Unix t = t div 1000000000"

definition Minute :: int where
  "Minute = 60 * 1000000000"

section \<open>Uploading a file\<close>

text \<open>
  \<open>createAuthorizationEvent\<close> of the utils package. The event is signed by the signer,
  serialized and base64-encoded; every error is returned as it is.
\<close>

definition createAuthorizationEvent :: "'f Sys \<Rightarrow> Keyer \<Rightarrow> string \<Rightarrow> Tag list \<Rightarrow> string + string" where
  "createAuthorizationEvent sys signer verb tags =
     (let event = \<lparr>ID = '''', PubKey = '''', CreatedAt = Unix (time_Now sys), Kind = 24242,
                   Tags = [], Content = ''Upload file'', Sig = ''''\<rparr>;
          event1 = event\<lparr>Tags := Tags event @ [[''t'', verb]]\<rparr>;
          event2 = foldl (\<lambda>e tag. e\<lparr>Tags := Tags e @ [tag]\<rparr>) event1 tags
      in case GetPublicKey signer of
           Inl err \<Rightarrow> Inl err
         | Inr pubKeyHex \<Rightarrow>
             (case SignEvent signer (event2\<lparr>PubKey := pubKeyHex\<rparr>) of
                Inl err \<Rightarrow> Inl err
              | Inr signed \<Rightarrow>
                  (case json_Marshal sys signed of
                     Inl err \<Rightarrow> Inl err
                   | Inr eventJSON \<Rightarrow> Inr (base64_EncodeToString sys eventJSON))))"

text \<open>
  The first part of \<open>UploadFile\<close>, up to the request it hands to \<open>client.Do\<close>: the file
  is opened and hashed, its size and its first 261 bytes are read (a read at the end of
  an empty file is the error \<open>EOF\<close>; the buffer is zero-filled), the authorization event
  is created and the request is built.
\<close>

definition UploadFile_request :: "'f Sys \<Rightarrow> string \<Rightarrow> string \<Rightarrow> Keyer \<Rightarrow> string + Request" where
  "UploadFile_request sys server filePath signer =
     (case os_Open sys filePath of
        Inl err \<Rightarrow> Inl err
      | Inr file \<Rightarrow>
          (case CopyErr file of
             Some err \<Rightarrow> Inl err
           | None \<Rightarrow>
               (let sha256Hash = hex_EncodeToString sys (sha256_Sum sys (Contents file))
                in case StatSize file of
                     Inl err \<Rightarrow> Inl err
                   | Inr fileSize \<Rightarrow>
                       (case (if ReadErr file \<noteq> None then ReadErr file
                              else if Contents file = '''' then Some ''EOF'' else None) of
                          Some err \<Rightarrow> Inl err
                        | None \<Rightarrow>
                            (let buf = take 261 (Contents file @ replicate 261 (CHR 0x00))
                             in case filetype_Match sys buf of
                                  Inl err \<Rightarrow> Inl err
                                | Inr mimeType \<Rightarrow>
                                    (case createAuthorizationEvent sys signer ''upload''
                                            [[''x'', sha256Hash],
                                             [''t'', ''upload''],
                                             [''expiration'', Sprintf_d (Unix (time_Now sys + 5 * Minute))]] of
                                       Inl err \<Rightarrow> Inl err
                                     | Inr authEventJSON \<Rightarrow>
                                         (let uploadURL = server @ ''/upload''
                                          in case http_NewRequest sys ''PUT'' uploadURL of
                                               Some err \<Rightarrow> Inl err
                                             | None \<Rightarrow>
                                                 Inr \<lparr>Method = ''PUT'', ReqURL = uploadURL,
                                                      Header = [''Content-Type'' \<mapsto> mimeType,
                                                                ''Content-Length'' \<mapsto> Sprintf_d fileSize,
                                                                ''Authorization'' \<mapsto> ''Nostr '' @ authEventJSON],
                                                      Body = Contents file\<rparr>)))))))"

text \<open>
  \<open>UploadFile\<close> of the utils package: the request is sent, the status of the response is
  checked and its body is decoded into the descriptor.
\<close>

definition UploadFile :: "'f Sys \<Rightarrow> string \<Rightarrow> string \<Rightarrow> Keyer \<Rightarrow> string + (string \<rightharpoonup> 'f any)" where
  "UploadFile sys server filePath signer =
     (case UploadFile_request sys server filePath signer of
        Inl err \<Rightarrow> Inl err
      | Inr req \<Rightarrow>
          (case client_Do sys req of
             Inl err \<Rightarrow> Inl err
           | Inr resp \<Rightarrow>
               if StatusCode resp \<noteq> 200 \<and> StatusCode resp \<noteq> 201 \<and> StatusCode resp \<noteq> 202 then
                 Inl (''upload failed: '' @ RespBody resp @ '', code '' @ Sprintf_d (StatusCode resp))
               else
                 (case json_Decode sys (RespBody resp) of
                    Inl err \<Rightarrow> Inl err
                  | Inr descriptor \<Rightarrow> Inr descriptor)))"

section \<open>The video command\<close>

text \<open>
  The command line of cmd/nip71, one optional value per declared flag, and the package
  variables the flags are parsed into, each with the default of its declaration.
\<close>

record CommandLine =
  url_arg :: "string option"
  file_arg :: "string option"
  key_arg :: "string option"
  title_arg :: "string option"
  description_arg :: "string option"
  published_at_arg :: "string option"
  relay_arg :: "string option"
  r_arg :: "string option"
  descriptor_arg :: "string option"
  blossom_arg :: "string option"
  diff_arg :: "int option"
  legacy_arg :: "bool option"

record Flags =
  videoURL_flag :: string
  videoFile_flag :: string
  privateKey_flag :: string
  title_flag :: string
  description_flag :: string
  publishedAt_flag :: string
  relay_flag :: string
  r_flag :: string
  descriptor_flag :: string
  blossom_flag :: string
  diff_flag :: int
  isLegacy_flag :: bool

definition flag_value :: "'a \<Rightarrow> 'a option \<Rightarrow> 'a" where
  "flag_value dflt given = (case given of None \<Rightarrow> dflt | Some v \<Rightarrow> v)"

definition flag_Parse :: "CommandLine \<Rightarrow> Flags" where
  "flag_Parse args =
     \<lparr>videoURL_flag = flag_value '''' (url_arg args),
      videoFile_flag = flag_value '''' (file_arg args),
      privateKey_flag = flag_value '''' (key_arg args),
      title_flag = flag_value '''' (title_arg args),
      description_flag = flag_value '''' (description_arg args),
      publishedAt_flag = flag_value '''' (published_at_arg args),
      relay_flag = flag_value '''' (relay_arg args),
      r_flag = flag_value '''' (r_arg args),
      descriptor_flag = flag_value '''' (descriptor_arg args),
      blossom_flag = flag_value ''https://cdn.nostrcheck.me'' (blossom_arg args),
      diff_flag = flag_value 16 (diff_arg args),
      isLegacy_flag = flag_value False (legacy_arg args)\<rparr>"

text \<open>How a run of the command ends: normally, by \<open>log.Fatalf\<close>, or by a panic.\<close>

datatype exit = Exit0 | Fatal string | Panicked string

text \<open>
  \<open>parseAndInitParams\<close> of cmd/nip71: the flags after the defaults it sets and the
  decoding of the key, with the signer it creates.
\<close>

definition parseAndInitParams :: "'f Sys \<Rightarrow> CommandLine \<Rightarrow> exit + (Flags \<times> Keyer)" where
  "parseAndInitParams sys args =
     (let flags0 = flag_Parse args;
          flags1 = (if description_flag flags0 = '''' then flags0\<lparr>description_flag := ''''\<rparr> else flags0);
          flags2 = (if publishedAt_flag flags1 = ''''
                    then flags1\<lparr>publishedAt_flag := Sprintf_d (Unix (time_Now sys))\<rparr> else flags1);
          decoded =
            (if HasPrefix (privateKey_flag flags2) ''nsec'' then
               (case nip19_Decode sys (privateKey_flag flags2) of
                  Inl err \<Rightarrow> Inl (Fatal (''Error decoding private key: '' @ err))
                | Inr (_, decodedKey) \<Rightarrow>
                    (case decodedKey of
                       AString s \<Rightarrow> Inr (flags2\<lparr>privateKey_flag := s\<rparr>)
                     | _ \<Rightarrow> Inl (Fatal ''Error asserting type of decoded private key'')))
             else Inr flags2)
      in case decoded of
           Inl ex \<Rightarrow> Inl ex
         | Inr flags3 \<Rightarrow>
             (case keyer_NewPlainKeySigner sys (privateKey_flag flags3) of
                Inl err \<Rightarrow> Inl (Fatal (''Error creating signer: '' @ err))
              | Inr signer \<Rightarrow> Inr (flags3, signer)))"

text \<open>\<open>LoadRelaysFromFile\<close> of the utils package; both failures are \<open>log.Fatalf\<close>.\<close>

definition LoadRelaysFromFile :: "'f Sys \<Rightarrow> string \<Rightarrow> exit + string list" where
  "LoadRelaysFromFile sys filePath =
     (case os_Open sys filePath of
        Inl err \<Rightarrow> Inl (Fatal (''Error opening '' @ filePath @ '': '' @ err))
      | Inr file \<Rightarrow>
          (case json_Decode_strings sys (Contents file) of
             Inl err \<Rightarrow> Inl (Fatal (''Error decoding '' @ filePath @ '': '' @ err))
           | Inr relays \<Rightarrow> Inr relays))"

text \<open>\<open>loadRelays\<close> of cmd/nip71.\<close>

definition loadRelays :: "'f Sys \<Rightarrow> string \<Rightarrow> exit + string list" where
  "loadRelays sys relayParam =
     (if HasPrefix relayParam ''ws://'' \<or> HasPrefix relayParam ''wss://'' then Inr ([] @ [relayParam])
      else if os_Stat sys relayParam = None then LoadRelaysFromFile sys relayParam
      else Inr [])"

text \<open>
  \<open>main\<close> of cmd/nip71, in the three parts of its body. The first obtains the video:
  it uploads the file, or downloads the URL, and gives the flags as updated and the
  local path of the video.
\<close>

definition main_video :: "'f Sys \<Rightarrow> Flags \<Rightarrow> Keyer \<Rightarrow> exit + (Flags \<times> string)" where
  "main_video sys flags signer =
     (if videoFile_flag flags \<noteq> '''' then
        (case UploadFile sys (blossom_flag flags) (videoFile_flag flags) signer of
           Inl err \<Rightarrow> Inl (Fatal (''Error uploading video file: '' @ err))
         | Inr uploadInfo \<Rightarrow>
             (case uploadInfo ''url'' of
                Some (AString u) \<Rightarrow>
                  (let flags1 = flags\<lparr>videoURL_flag := u\<rparr>;
                       flags2 = (case uploadInfo ''uploaded'' of
                                   Some (AFloat64 uploadedAt) \<Rightarrow>
                                     flags1\<lparr>publishedAt_flag := Sprintf_d (int64_of_float64 sys uploadedAt)\<rparr>
                                 | _ \<Rightarrow> flags1\<lparr>publishedAt_flag := Sprintf_d (Unix (time_Now sys))\<rparr>)
                   in Inr (flags2, videoFile_flag flags))
              | _ \<Rightarrow> Inl (Panicked ''interface conversion: interface {} is not string'')))
      else
        (case DownloadVideo sys (videoURL_flag flags) of
           Inl err \<Rightarrow> Inl (Fatal (''Error downloading video: '' @ err))
         | Inr videoPath \<Rightarrow> Inr (flags, videoPath)))"

text \<open>
  The last part of \<open>main\<close>: the signed event is printed and, if a relay flag is set,
  the relays are loaded and the event is published to them. The result is what the
  run has written and done, and how it ends.
\<close>

definition main_publish :: "'f Sys \<Rightarrow> 's RelayLib \<Rightarrow> Flags \<Rightarrow> Keyer \<Rightarrow> Event \<Rightarrow> action list \<times> exit" where
  "main_publish sys lib flags signer event =
     (let out = [PrintEvent event]
      in if relay_flag flags \<noteq> '''' \<or> r_flag flags \<noteq> '''' then
           (case loadRelays sys (relay_flag flags) of
              Inl ex \<Rightarrow> (out, ex)
            | Inr relays \<Rightarrow>
                (case (if length relays = 0 then loadRelays sys (r_flag flags) else Inr relays) of
                   Inl ex \<Rightarrow> (out, ex)
                 | Inr relays1 \<Rightarrow>
                     if length relays1 > 0 then (out @ PublishEvent lib event signer relays1, Exit0)
                     else (out, Exit0)))
         else (out, Exit0))"

text \<open>
  \<open>main\<close> of cmd/nip71. \<open>None\<close> is a run that does not return from the proof of work.
  The deferred \<open>os.Remove\<close> and \<open>cancel\<close> write nothing.
\<close>

definition main :: "'f Sys \<Rightarrow> 's RelayLib \<Rightarrow> CommandLine \<Rightarrow> (action list \<times> exit) option" where
  "main sys lib args =
     (case parseAndInitParams sys args of
        Inl ex \<Rightarrow> Some ([], ex)
      | Inr (flags, signer) \<Rightarrow>
          if videoURL_flag flags = '''' \<and> videoFile_flag flags = '''' then
            Some ([], Fatal ''Either -url or -file must be provided'')
          else
            (case main_video sys flags signer of
               Inl ex \<Rightarrow> Some ([], ex)
             | Inr (flags1, videoPath) \<Rightarrow>
                 (case ValidateInput (url_ParseRequestURI sys) (strconv_ParseInt sys)
                         (videoURL_flag flags1) (title_flag flags1) (publishedAt_flag flags1) of
                    Some err \<Rightarrow> Some ([], Fatal (''Input validation error: '' @ err))
                  | None \<Rightarrow>
                      (case ExtractMediaInfo sys videoPath ''video'' of
                         Inl err \<Rightarrow> Some ([], Fatal (''Error extracting video information: '' @ err))
                       | Inr (width, height, fileSize, videoHash, bhash, mime) \<Rightarrow>
                           (case createNip71Event (isLegacy_flag flags1) (diff_flag flags1) signer
                                   (Unix (time_Now sys)) (nip13_DoWork sys)
                                   height width fileSize videoHash bhash mime
                                   (title_flag flags1) (publishedAt_flag flags1) (videoURL_flag flags1)
                                   (description_flag flags1) (descriptor_flag flags1) of
                              None \<Rightarrow> None
                            | Some (Inl err) \<Rightarrow> Some ([], Fatal (''Error creating NIP-71 event: '' @ err))
                            | Some (Inr event) \<Rightarrow>
                                (case SignEvent signer event of
                                   Inl err \<Rightarrow> Some ([], Fatal (''Error signing event: '' @ err))
                                 | Inr signed \<Rightarrow> Some (main_publish sys lib flags1 signer signed)))))))"

section \<open>The event before the proof of work\<close>

text \<open>
  The event \<open>createNip71Event\<close> has assembled when it calls \<open>Pow\<close>: the literal of the
  source with the \<open>d\<close> tag appended in legacy mode. Lemma \<open>createNip71Event_eq\<close> below
  shows that \<open>createNip71Event\<close> is the proof of work applied to this event.
\<close>

definition video_event ::
  "bool \<Rightarrow> int \<Rightarrow> string \<Rightarrow> int \<Rightarrow> int \<Rightarrow> int \<Rightarrow> string \<Rightarrow> string \<Rightarrow> string \<Rightarrow> string \<Rightarrow> string \<Rightarrow> string \<Rightarrow> string \<Rightarrow> string \<Rightarrow> Event" where
  "video_event isLegacy now pubKey height width fileSize videoHash bhash mime title publishedAt videoURL description descriptor =
     \<lparr>ID = '''', PubKey = pubKey, CreatedAt = now,
      Kind = (if height > width then (if isLegacy then 34235 else 21) + 1 else (if isLegacy then 34235 else 21)),
      Tags = [[''alt'', if height > width then ''Vertical Video'' else ''Horizontal Video''],
              [''title'', title],
              [''published_at'', publishedAt],
              [''imeta'',
               ''url '' @ videoURL,
               ''m '' @ mime,
               ''alt '' @ (if height > width then ''Vertical Video'' else ''Horizontal Video''),
               ''x '' @ videoHash,
               ''size '' @ Sprintf_d fileSize,
               ''dim '' @ Sprintf_d width @ ''x'' @ Sprintf_d height,
               ''blurhash '' @ bhash]] @
             (if isLegacy then [[''d'', if descriptor \<noteq> '''' then descriptor else videoHash]] else []),
      Content = description, Sig = ''''\<rparr>"

text \<open>
  The key of an \<open>imeta\<close> sub-entry \<open>key value\<close>: the characters before the first space.
\<close>

definition sub_entry_key :: "string \<Rightarrow> string" where
  "sub_entry_key entry = takeWhile (\<lambda>c. c \<noteq> CHR '' '') entry"

text \<open>
  The event \<open>createAuthorizationEvent\<close> hands to the signer when \<open>UploadFile\<close> calls it:
  the literal of the source, the verb tag, the three tags of \<open>UploadFile\<close> and the public
  key. Lemma \<open>createAuthorizationEvent_Inr\<close> below shows that this is the signed event.
\<close>

definition upload_auth_event :: "'f Sys \<Rightarrow> string \<Rightarrow> string \<Rightarrow> Event" where
  "upload_auth_event sys pubKeyHex sha256Hash =
     \<lparr>ID = '''', PubKey = pubKeyHex, CreatedAt = Unix (time_Now sys), Kind = 24242,
      Tags = [[''t'', ''upload''],
              [''x'', sha256Hash],
              [''t'', ''upload''],
              [''expiration'', Sprintf_d (Unix (time_Now sys + 5 * Minute))]],
      Content = ''Upload file'', Sig = ''''\<rparr>"

section \<open>Example values\<close>

text \<open>
  A signer, an event and an identifier function on which the definitions are run: the
  identifier has eight leading zero bits once the event carries the nonce 2.
\<close>

definition signer0 :: Keyer where
  "signer0 = \<lparr>GetPublicKey = Inr ''pk'', SignEvent = (\<lambda>e. Inr (e\<lparr>Sig := ''sig''\<rparr>))\<rparr>"

definition event0 :: Event where
  "event0 = \<lparr>ID = '''', PubKey = ''pk'', CreatedAt = 1700000000, Kind = 20,
             Tags = [[''title'', ''cat'']], Content = '''', Sig = ''''\<rparr>"

definition getID0 :: "Event \<Rightarrow> string" where
  "getID0 e = (if [''nonce'', ''2'', ''8''] \<in> set (Tags e) then ''00ab'' else ''7fab'')"

definition stamped_event0 :: Event where
  "stamped_event0 = \<lparr>ID = '''', PubKey = ''pk'', CreatedAt = 1700000000, Kind = 20,
             Tags = [[''title'', ''cat''], [''nonce'', ''2'', ''8'']], Content = '''', Sig = ''''\<rparr>"

text \<open>A nonce search that does not return, and the events built in the examples.\<close>

definition no_work :: "Event \<Rightarrow> int \<Rightarrow> (string + Tag) option" where
  "no_work e d = None"

definition vertical_event0 :: Event where
  "vertical_event0 =
     \<lparr>ID = '''', PubKey = ''pk'', CreatedAt = 1700000000, Kind = 22,
      Tags = [[''alt'', ''Vertical Video''], [''title'', ''t''], [''published_at'', ''1''],
              [''imeta'', ''url u'', ''m video/mp4'', ''alt Vertical Video'', ''x h'', ''size 5'',
               ''dim 1080x1920'', ''blurhash b'']],
      Content = ''c'', Sig = ''''\<rparr>"

definition legacy_event0 :: Event where
  "legacy_event0 =
     \<lparr>ID = '''', PubKey = ''pk'', CreatedAt = 1700000000, Kind = 34235,
      Tags = [[''alt'', ''Horizontal Video''], [''title'', ''t''], [''published_at'', ''1''],
              [''imeta'', ''url u'', ''m video/mp4'', ''alt Horizontal Video'', ''x h'', ''size 5'',
               ''dim 1920x1080'', ''blurhash b''],
              [''d'', ''h'']],
      Content = ''c'', Sig = ''''\<rparr>"

definition image_event0 :: Event where
  "image_event0 =
     \<lparr>ID = '''', PubKey = ''pk'', CreatedAt = 1700000000, Kind = 20,
      Tags = [[''title'', ''t''], [''published_at'', ''1''],
              [''imeta'', ''url u'', ''x h'', ''dim 1920x1080'', ''m image/png'', ''blurhash b'']],
      Content = ''c'', Sig = ''''\<rparr>"

definition described_event0 :: Event where
  "described_event0 =
     \<lparr>ID = '''', PubKey = ''pk'', CreatedAt = 1700000000, Kind = 34235,
      Tags = [[''alt'', ''Horizontal Video''], [''title'', ''t''], [''published_at'', ''1''],
              [''imeta'', ''url u'', ''m video/mp4'', ''alt Horizontal Video'', ''x h'', ''size 5'',
               ''dim 1920x1080'', ''blurhash b''],
              [''d'', ''myvideo'']],
      Content = ''c'', Sig = ''''\<rparr>"

definition untitled_event0 :: Event where
  "untitled_event0 =
     \<lparr>ID = '''', PubKey = ''pk'', CreatedAt = 1700000000, Kind = 21,
      Tags = [[''alt'', ''Horizontal Video''], [''title'', ''''], [''published_at'', ''1''],
              [''imeta'', ''url https://example.com/v.mp4'', ''m video/mp4'', ''alt Horizontal Video'',
               ''x h'', ''size 5'', ''dim 1920x1080'', ''blurhash b'']],
      Content = ''c'', Sig = ''sig''\<rparr>"

text \<open>
  A system in which the file \<open>v.mp4\<close> exists and no other, the storage endpoint answers
  200 with a descriptor, every key is raw, and a media file is a 1920x1080 video; the
  same system with a response body that does not decode; and the request of the upload.
\<close>

definition file0 :: OsFile where
  "file0 = \<lparr>Contents = ''video'', CopyErr = None, StatSize = Inr 5, ReadErr = None\<rparr>"

definition sys0 :: "int Sys" where
  "sys0 = \<lparr>time_Now = 1700000000000000000,
           os_Open = (\<lambda>p. if p = ''v.mp4'' then Inr file0 else Inl ''open: no such file or directory''),
           os_Stat = (\<lambda>p. if p = ''v.mp4'' then None else Some ''stat: no such file or directory''),
           sha256_Sum = (\<lambda>b. ''digest''),
           hex_EncodeToString = (\<lambda>b. ''h''),
           filetype_Match = (\<lambda>b. Inr ''video/mp4''),
           json_Marshal = (\<lambda>e. Inr ''{}''),
           base64_EncodeToString = (\<lambda>s. ''e30=''),
           http_NewRequest = (\<lambda>m u. None),
           client_Do = (\<lambda>req. Inr \<lparr>StatusCode = 200, RespBody = ''{}''\<rparr>),
           json_Decode = (\<lambda>b. Inr [''url'' \<mapsto> AString ''https://cdn.example/h.mp4'']),
           json_Decode_strings = (\<lambda>b. Inl ''invalid character''),
           int64_of_float64 = (\<lambda>x. x),
           nip19_Decode = (\<lambda>k. Inl ''invalid bech32 string''),
           keyer_NewPlainKeySigner = (\<lambda>k. Inr signer0),
           url_ParseRequestURI = (\<lambda>u. if HasPrefix u ''https://'' then None else Some ''invalid URI for request''),
           strconv_ParseInt = (\<lambda>s. if s \<noteq> '''' \<and> list_all (\<lambda>c. c \<in> set ''0123456789'') s then None
                                    else Some ''invalid syntax''),
           nip13_DoWork = no_work,
           DownloadVideo = (\<lambda>u. Inr ''/tmp/video-1.mp4''),
           ExtractMediaInfo = (\<lambda>p k. Inr (1920, 1080, 5, ''h'', ''b'', ''video/mp4''))\<rparr>"

definition sys1 :: "int Sys" where
  "sys1 = sys0\<lparr>json_Decode := (\<lambda>b. Inl ''invalid character'')\<rparr>"

definition request0 :: Request where
  "request0 = \<lparr>Method = ''PUT'', ReqURL = ''https://cdn.example/upload'',
               Header = [''Content-Type'' \<mapsto> ''video/mp4'',
                         ''Content-Length'' \<mapsto> ''5'',
                         ''Authorization'' \<mapsto> ''Nostr e30=''],
               Body = ''video''\<rparr>"

text \<open>
  A relay library whose relays ask for authentication before they accept an event
  (the connection state is whether the client has authenticated) and where one relay
  cannot be reached; and the same library with relays that reject the authentication.
\<close>

definition relaylib0 :: "bool RelayLib" where
  "relaylib0 = \<lparr>RelayConnect = (\<lambda>u. if u = ''wss://down'' then Inl ''dial failed'' else Inr False),
                Publish = (\<lambda>s e. if s then (None, s) else (Some ''msg: auth-required: sign in'', s)),
                Auth = (\<lambda>s sign. case sign event0 of Inl err \<Rightarrow> (Some err, s) | Inr _ \<Rightarrow> (None, True))\<rparr>"

definition relaylib1 :: "bool RelayLib" where
  "relaylib1 = relaylib0\<lparr>Auth := (\<lambda>s sign. (Some ''restricted: not allowed'', s))\<rparr>"

text \<open>
  A command line of the video command with a URL, no title, and a relay parameter that
  is neither a relay URI nor an existing file; and a fingerprinter that finds an image.
\<close>

definition args0 :: CommandLine where
  "args0 = \<lparr>url_arg = Some ''https://example.com/v.mp4'', file_arg = None, key_arg = Some ''01'',
            title_arg = None, description_arg = Some ''c'', published_at_arg = Some ''1'',
            relay_arg = Some ''relays.json'', r_arg = None, descriptor_arg = None, blossom_arg = None,
            diff_arg = Some 0, legacy_arg = None\<rparr>"

definition extract_image0 :: "string \<Rightarrow> string \<Rightarrow> string + (int \<times> int \<times> int \<times> string \<times> string \<times> string)" where
  "extract_image0 p k = Inr (1920, 1080, 5, ''h'', ''b'', ''image/png'')"

section \<open>Decimal digits\<close>

declare dec_nat.simps [simp del]

lemma dec_nat_digits:
  "dec_nat 0 = ''0''" "dec_nat (Suc 0) = ''1''" "dec_nat (Suc (Suc 0)) = ''2''" "dec_nat 8 = ''8''"
  by (simp_all add: dec_nat.simps digit_char_def)

lemma Sprintf_d_examples:
  "Sprintf_d 5 = ''5''" "Sprintf_d 1080 = ''1080''" "Sprintf_d 1920 = ''1920''"
  by (simp_all add: Sprintf_d_def dec_nat.simps digit_char_def)

section \<open>Properties of proof of work\<close>

lemma Pow_event_Kind: "Pow_event doWork event diff = Some (Inr event') \<Longrightarrow> Kind event' = Kind event"
  by (auto simp: Pow_event_def split: if_splits option.splits sum.splits)

lemma nonce_search_sound:
  assumes "nonce_search getID event d n = Some tag"
  shows "(\<exists>m. tag = nonce_tag m d) \<and> d \<le> int (Difficulty (getID (event\<lparr>Tags := Tags event @ [tag]\<rparr>)))"
  using assms
proof (induction rule: nonce_search.raw_induct[rotated 1, consumes 1])
  case (1 f getID event d n tag)
  show ?case
  proof (cases "d \<le> int (Difficulty (getID (event\<lparr>Tags := Tags event @ [nonce_tag n d]\<rparr>)))")
    case True
    with 1(2) have "tag = nonce_tag n d" by simp
    with True show ?thesis by blast
  next
    case False
    with 1(2) have "f getID event d (Suc n) = Some tag" by simp
    then show ?thesis by (rule 1(1))
  qed
qed

lemma Pow_event_DoWork:
  assumes "0 < d" and "Pow_event (DoWork getID) ev d = Some (Inr ev')"
  shows "\<exists>n. ev' = ev\<lparr>Tags := Tags ev @ [nonce_tag n d]\<rparr> \<and> d \<le> int (Difficulty (getID ev'))"
proof -
  from assms obtain tag where t: "nonce_search getID ev d 0 = Some tag"
    and e: "ev' = ev\<lparr>Tags := Tags ev @ [tag]\<rparr>"
    by (auto simp: Pow_event_def DoWork_def split: option.splits sum.splits)
  from nonce_search_sound[OF t] e show ?thesis by blast
qed

lemma Difficulty_ids: "Difficulty ''00ab'' = 8" "Difficulty ''7fab'' = 1"
  by (simp_all add: hex_val_def nibble_zeros_def upt_rec)

lemma nonce_search_event0: "nonce_search getID0 event0 8 0 = Some [''nonce'', ''2'', ''8'']"
  apply (subst nonce_search.simps)
  apply (simp add: nonce_tag_def getID0_def event0_def Sprintf_d_def dec_nat_digits Difficulty_ids del: Difficulty.simps)
  apply (subst nonce_search.simps)
  apply (simp add: nonce_tag_def getID0_def event0_def Sprintf_d_def dec_nat_digits Difficulty_ids del: Difficulty.simps)
  apply (subst nonce_search.simps)
  apply (simp add: nonce_tag_def getID0_def event0_def Sprintf_d_def dec_nat_digits Difficulty_ids del: Difficulty.simps)
  done

lemma Pow_event_event0:
  "Pow_event (DoWork getID0) event0 8 = Some (Inr stamped_event0)"
  by (simp add: Pow_event_def DoWork_def nonce_search_event0) (simp add: event0_def stamped_event0_def)

lemma getID0_stamped: "Difficulty (getID0 stamped_event0) = 8"
  by (simp add: getID0_def stamped_event0_def Difficulty_ids del: Difficulty.simps)

text \<open>
  C2. For a target difficulty \<open>d > 0\<close>, whenever the proof of work returns an event, the
  identifier of that event has at least \<open>d\<close> leading zero bits and its tags are the
  tags of the given event followed by the winning nonce tag, which is the last tag; for
  \<open>d \<le> 0\<close> the operation returns the event as it was given, whatever the nonce search
  would do.
\<close>

theorem pow_stamps_work:
  "(0 < d \<longrightarrow>
      (\<forall>ev'. Pow_event (DoWork getID) ev d = Some (Inr ev') \<longrightarrow>
         d \<le> int (Difficulty (getID ev')) \<and>
         (\<exists>n. Tags ev' = Tags ev @ [nonce_tag n d] \<and> last (Tags ev') = nonce_tag n d))) \<and>
   (d \<le> 0 \<longrightarrow> Pow_event doWork ev d = Some (Inr ev))"
proof (intro conjI impI allI)
  fix ev' assume "0 < d" "Pow_event (DoWork getID) ev d = Some (Inr ev')"
  from Pow_event_DoWork[OF this] obtain n where
    "ev' = ev\<lparr>Tags := Tags ev @ [nonce_tag n d]\<rparr>" "d \<le> int (Difficulty (getID ev'))" by blast
  then show "d \<le> int (Difficulty (getID ev'))"
    and "\<exists>n. Tags ev' = Tags ev @ [nonce_tag n d] \<and> last (Tags ev') = nonce_tag n d"
    by auto
next
  assume "d \<le> 0" then show "Pow_event doWork ev d = Some (Inr ev)" by (simp add: Pow_event_def)
qed

theorem pow_stamps_work_witness:
  "(0::int) < 8 \<and>
   Pow_event (DoWork getID0) event0 8 = Some (Inr stamped_event0) \<and>
   (8::int) \<le> int (Difficulty (getID0 stamped_event0)) \<and>
   last (Tags stamped_event0) = [''nonce'', ''2'', ''8''] \<and>
   (0::int) \<le> 0 \<and> Pow_event (DoWork getID0) event0 0 = Some (Inr event0)"
proof -
  have a: "(0::int) < 8" by simp
  have b: "(0::int) \<le> 0" by simp
  from pow_stamps_work[of 8 getID0 event0 "DoWork getID0"] a Pow_event_event0
  have c: "(8::int) \<le> int (Difficulty (getID0 stamped_event0))" by blast
  from pow_stamps_work[of 0 getID0 event0 "DoWork getID0"] b
  have d: "Pow_event (DoWork getID0) event0 0 = Some (Inr event0)" by blast
  have e: "last (Tags stamped_event0) = [''nonce'', ''2'', ''8'']" by (simp add: stamped_event0_def)
  from a b c d e Pow_event_event0 show ?thesis by blast
qed

section \<open>Properties of the built events\<close>

lemma case_Pow_event:
  "(case Pow_event doWork e d of None \<Rightarrow> None | Some (Inl err) \<Rightarrow> Some (Inl (f err)) | Some (Inr e2) \<Rightarrow> Some (Inr e2)) = Some (Inr ev)
   \<longleftrightarrow> Pow_event doWork e d = Some (Inr ev)"
  by (simp split: option.splits sum.splits)

lemma createNip71Event_eq:
  "createNip71Event isLegacy diff signer now doWork height width fileSize videoHash bhash mime
      title publishedAt videoURL description descriptor =
   (case GetPublicKey signer of
      Inl err \<Rightarrow> Some (Inl (''Error getting public key: '' @ err))
    | Inr pubKey \<Rightarrow>
        (case Pow_event doWork (video_event isLegacy now pubKey height width fileSize videoHash bhash mime
                 title publishedAt videoURL description descriptor) diff of
           None \<Rightarrow> None
         | Some (Inl err) \<Rightarrow> Some (Inl (''Error calculating proof of work: '' @ err))
         | Some (Inr event2) \<Rightarrow> Some (Inr event2)))"
  unfolding createNip71Event_def video_event_def Let_def
  by (cases isLegacy) (simp_all split del: if_split cong: sum.case_cong option.case_cong)

lemma createNip71Event_built:
  assumes "createNip71Event isLegacy diff signer now doWork height width fileSize videoHash bhash mime
      title publishedAt videoURL description descriptor = Some (Inr ev)"
  shows "\<exists>pubKey. GetPublicKey signer = Inr pubKey \<and>
     Pow_event doWork (video_event isLegacy now pubKey height width fileSize videoHash bhash mime
                 title publishedAt videoURL description descriptor) diff = Some (Inr ev)"
proof (cases "GetPublicKey signer")
  case (Inl e)
  with assms show ?thesis by (simp add: createNip71Event_eq)
next
  case (Inr pk)
  with assms show ?thesis by (simp add: createNip71Event_eq case_Pow_event)
qed

lemma createNip68Event_built:
  assumes "createNip68Event diff signer now doWork imetaTags title publishedAt description = Some (Inr ev)"
  shows "\<exists>pubKey. GetPublicKey signer = Inr pubKey \<and>
     Pow_event doWork \<lparr>ID = '''', PubKey = pubKey, CreatedAt = now, Kind = 20,
        Tags = [[''title'', title], [''published_at'', publishedAt]] @ imetaTags,
        Content = description, Sig = ''''\<rparr> diff = Some (Inr ev)"
proof (cases "GetPublicKey signer")
  case (Inl e)
  with assms show ?thesis by (simp add: createNip68Event_def Let_def)
next
  case (Inr pk)
  with assms show ?thesis by (simp add: createNip68Event_def Let_def case_Pow_event)
qed

lemma video_vertical_built:
  "createNip71Event False 0 signer0 1700000000 no_work 1920 1080 5 ''h'' ''b'' ''video/mp4''
     ''t'' ''1'' ''u'' ''c'' '''' = Some (Inr vertical_event0)"
  by (simp add: createNip71Event_eq video_event_def signer0_def Pow_event_def Sprintf_d_examples
      vertical_event0_def)

lemma video_legacy_built:
  "createNip71Event True 0 signer0 1700000000 no_work 1080 1920 5 ''h'' ''b'' ''video/mp4''
     ''t'' ''1'' ''u'' ''c'' '''' = Some (Inr legacy_event0)"
  by (simp add: createNip71Event_eq video_event_def signer0_def Pow_event_def Sprintf_d_examples
      legacy_event0_def)

lemma image_built:
  "createNip68Event 0 signer0 1700000000 no_work
     [[''imeta'', ''url u'', ''x h'', ''dim 1920x1080'', ''m image/png'', ''blurhash b'']] ''t'' ''1'' ''c'' =
   Some (Inr image_event0)"
  by (simp add: createNip68Event_def signer0_def Pow_event_def image_event0_def)

text \<open>
  C1. Every built video event has kind 22 (current mode) or 34236 (legacy mode) when the
  height exceeds the width, and kind 21 or 34235 otherwise; every built image event has
  kind 20, whatever the dimensions of its images.
\<close>

theorem kind_selection:
  "(createNip71Event isLegacy diff signer now doWork height width fileSize videoHash bhash mime
      title publishedAt videoURL description descriptor = Some (Inr ev) \<longrightarrow>
    Kind ev = (if isLegacy then (if height > width then 34236 else 34235)
               else (if height > width then 22 else 21))) \<and>
   (createNip68Event diff' signer' now' doWork' imetaTags title' publishedAt' description' = Some (Inr ev') \<longrightarrow>
    Kind ev' = 20)"
proof (intro conjI impI)
  assume "createNip71Event isLegacy diff signer now doWork height width fileSize videoHash bhash mime
      title publishedAt videoURL description descriptor = Some (Inr ev)"
  from createNip71Event_built[OF this] obtain pubKey where
    "Pow_event doWork (video_event isLegacy now pubKey height width fileSize videoHash bhash mime
        title publishedAt videoURL description descriptor) diff = Some (Inr ev)" by blast
  from Pow_event_Kind[OF this]
  show "Kind ev = (if isLegacy then (if height > width then 34236 else 34235)
               else (if height > width then 22 else 21))"
    by (simp add: video_event_def)
next
  assume "createNip68Event diff' signer' now' doWork' imetaTags title' publishedAt' description' = Some (Inr ev')"
  from createNip68Event_built[OF this] obtain pubKey where
    "Pow_event doWork' \<lparr>ID = '''', PubKey = pubKey, CreatedAt = now', Kind = 20,
        Tags = [[''title'', title'], [''published_at'', publishedAt']] @ imetaTags,
        Content = description', Sig = ''''\<rparr> diff' = Some (Inr ev')" by blast
  from Pow_event_Kind[OF this] show "Kind ev' = 20" by simp
qed

theorem kind_selection_witness:
  "createNip71Event False 0 signer0 1700000000 no_work 1920 1080 5 ''h'' ''b'' ''video/mp4''
     ''t'' ''1'' ''u'' ''c'' '''' = Some (Inr vertical_event0) \<and> Kind vertical_event0 = 22 \<and>
   createNip71Event True 0 signer0 1700000000 no_work 1080 1920 5 ''h'' ''b'' ''video/mp4''
     ''t'' ''1'' ''u'' ''c'' '''' = Some (Inr legacy_event0) \<and> Kind legacy_event0 = 34235 \<and>
   createNip68Event 0 signer0 1700000000 no_work
     [[''imeta'', ''url u'', ''x h'', ''dim 1920x1080'', ''m image/png'', ''blurhash b'']] ''t'' ''1'' ''c'' =
     Some (Inr image_event0) \<and> Kind image_event0 = 20"
  using kind_selection[of False 0 signer0 1700000000 no_work 1920 1080 5 "''h''" "''b''" "''video/mp4''"
      "''t''" "''1''" "''u''" "''c''" "''''" vertical_event0 0 signer0 1700000000 no_work
      "[[''imeta'', ''url u'', ''x h'', ''dim 1920x1080'', ''m image/png'', ''blurhash b'']]" "''t''" "''1''" "''c''" image_event0]
    kind_selection[of True 0 signer0 1700000000 no_work 1080 1920 5 "''h''" "''b''" "''video/mp4''"
      "''t''" "''1''" "''u''" "''c''" "''''" legacy_event0 0 signer0 1700000000 no_work
      "[[''imeta'', ''url u'', ''x h'', ''dim 1920x1080'', ''m image/png'', ''blurhash b'']]" "''t''" "''1''" "''c''" image_event0]
    video_vertical_built video_legacy_built image_built
  by simp

lemma Pow_event_nth:
  "Pow_event doWork event diff = Some (Inr event') \<Longrightarrow> i < length (Tags event) \<Longrightarrow>
   Tags event' ! i = Tags event ! i"
  by (auto simp: Pow_event_def nth_append split: if_splits option.splits sum.splits)

lemma video_described_built:
  "createNip71Event True 0 signer0 1700000000 no_work 1080 1920 5 ''h'' ''b'' ''video/mp4''
     ''t'' ''1'' ''u'' ''c'' ''myvideo'' = Some (Inr described_event0)"
  by (simp add: createNip71Event_eq video_event_def signer0_def Pow_event_def Sprintf_d_examples
      described_event0_def)

text \<open>
  C4 (as amended). In legacy mode the \<open>d\<close> tag of the built event is its fifth tag and
  no earlier tag is a \<open>d\<close> tag; its value is the content hash when no descriptor is
  given on the command line and when the descriptor given is the empty string, and it
  is the given descriptor verbatim when that is not empty.
\<close>

theorem legacy_d_tag:
  assumes "createNip71Event True diff signer now doWork height width fileSize videoHash bhash mime
      title publishedAt videoURL description (descriptor_flag (flag_Parse args)) = Some (Inr ev)"
  shows "Tags ev ! 4 = [''d'', case descriptor_arg args of
                                 None \<Rightarrow> videoHash
                               | Some s \<Rightarrow> if s = '''' then videoHash else s] \<and>
         (\<forall>i < 4. hd (Tags ev ! i) \<noteq> ''d'')"
proof -
  from createNip71Event_built[OF assms] obtain pubKey where
    p: "Pow_event doWork (video_event True now pubKey height width fileSize videoHash bhash mime
        title publishedAt videoURL description (descriptor_flag (flag_Parse args))) diff = Some (Inr ev)"
    by blast
  have n: "\<And>i. i < 5 \<Longrightarrow> Tags ev ! i = Tags (video_event True now pubKey height width fileSize videoHash bhash mime
        title publishedAt videoURL description (descriptor_flag (flag_Parse args))) ! i"
    by (rule Pow_event_nth[OF p]) (simp add: video_event_def)
  have "Tags ev ! 4 = [''d'', case descriptor_arg args of
                                 None \<Rightarrow> videoHash
                               | Some s \<Rightarrow> if s = '''' then videoHash else s]"
    by (simp add: n video_event_def flag_Parse_def flag_value_def split: option.splits)
  moreover have "\<forall>i < 4. hd (Tags ev ! i) \<noteq> ''d''"
  proof (intro allI impI)
    fix i :: nat assume "i < 4"
    then have "i = 0 \<or> i = 1 \<or> i = 2 \<or> i = 3" by arith
    moreover from \<open>i < 4\<close> have "Tags ev ! i = Tags (video_event True now pubKey height width fileSize videoHash bhash mime
        title publishedAt videoURL description (descriptor_flag (flag_Parse args))) ! i" by (simp add: n)
    ultimately show "hd (Tags ev ! i) \<noteq> ''d''" by (auto simp: video_event_def)
  qed
  ultimately show ?thesis by blast
qed

theorem legacy_d_tag_witness:
  "createNip71Event True 0 signer0 1700000000 no_work 1080 1920 5 ''h'' ''b'' ''video/mp4''
     ''t'' ''1'' ''u'' ''c'' (descriptor_flag (flag_Parse (args0\<lparr>descriptor_arg := Some ''myvideo''\<rparr>))) =
     Some (Inr described_event0) \<and>
   Tags described_event0 ! 4 = [''d'', ''myvideo''] \<and>
   hd (Tags described_event0 ! 0) \<noteq> ''d''"
proof -
  have b: "createNip71Event True 0 signer0 1700000000 no_work 1080 1920 5 ''h'' ''b'' ''video/mp4''
     ''t'' ''1'' ''u'' ''c'' (descriptor_flag (flag_Parse (args0\<lparr>descriptor_arg := Some ''myvideo''\<rparr>))) =
     Some (Inr described_event0)"
    by (simp add: flag_Parse_def flag_value_def video_described_built)
  from legacy_d_tag[OF b] b show ?thesis by simp
qed

text \<open>
  The claim C4 as it is stated fails for the empty override: with the descriptor
  given as the empty string, the \<open>d\<close> tag carries the content hash.
\<close>

theorem empty_descriptor_counterexample:
  "descriptor_arg (args0\<lparr>descriptor_arg := Some ''''\<rparr>) = Some '''' \<and>
   createNip71Event True 0 signer0 1700000000 no_work 1080 1920 5 ''h'' ''b'' ''video/mp4''
     ''t'' ''1'' ''u'' ''c'' (descriptor_flag (flag_Parse (args0\<lparr>descriptor_arg := Some ''''\<rparr>))) =
     Some (Inr legacy_event0) \<and>
   Tags legacy_event0 ! 4 = [''d'', ''h''] \<and>
   Tags legacy_event0 ! 4 \<noteq> [''d'', '''']"
  by (simp add: flag_Parse_def flag_value_def video_legacy_built) (simp add: legacy_event0_def)

lemma image_tag_built:
  "addImageIMetaTag extract_image0 ''cat.png'' ''u'' =
   Inr [''imeta'', ''url u'', ''x h'', ''dim 1920x1080'', ''m image/png'', ''blurhash b'']"
  by (simp add: addImageIMetaTag_def extract_image0_def Sprintf_d_examples)

text \<open>
  C7. The fourth tag of every built video event, in either mode, is its \<open>imeta\<close> tag, no
  earlier tag is one, and its sub-entries have the keys url, m, alt, x, size, dim,
  blurhash in this order; every \<open>imeta\<close> tag made for an image has sub-entries with the
  keys url, x, dim, m, blurhash in this order.
\<close>

theorem imeta_order:
  "(createNip71Event isLegacy diff signer now doWork height width fileSize videoHash bhash mime
      title publishedAt videoURL description descriptor = Some (Inr ev) \<longrightarrow>
      Tags ev ! 3 = [''imeta'',
                     ''url '' @ videoURL,
                     ''m '' @ mime,
                     ''alt '' @ (if height > width then ''Vertical Video'' else ''Horizontal Video''),
                     ''x '' @ videoHash,
                     ''size '' @ Sprintf_d fileSize,
                     ''dim '' @ Sprintf_d width @ ''x'' @ Sprintf_d height,
                     ''blurhash '' @ bhash] \<and>
      map sub_entry_key (tl (Tags ev ! 3)) = [''url'', ''m'', ''alt'', ''x'', ''size'', ''dim'', ''blurhash''] \<and>
      (\<forall>i < 3. hd (Tags ev ! i) \<noteq> ''imeta'')) \<and>
   (addImageIMetaTag extractMediaInfo imagePath imageURL = Inr tag \<longrightarrow>
      hd tag = ''imeta'' \<and>
      map sub_entry_key (tl tag) = [''url'', ''x'', ''dim'', ''m'', ''blurhash''])"
proof (intro conjI impI)
  assume a: "createNip71Event isLegacy diff signer now doWork height width fileSize videoHash bhash mime
      title publishedAt videoURL description descriptor = Some (Inr ev)"
  from createNip71Event_built[OF a] obtain pubKey where
    p: "Pow_event doWork (video_event isLegacy now pubKey height width fileSize videoHash bhash mime
        title publishedAt videoURL description descriptor) diff = Some (Inr ev)"
    by blast
  have n: "\<And>i. i < 4 \<Longrightarrow> Tags ev ! i = Tags (video_event isLegacy now pubKey height width fileSize videoHash bhash mime
        title publishedAt videoURL description descriptor) ! i"
    by (rule Pow_event_nth[OF p]) (simp add: video_event_def)
  show t3: "Tags ev ! 3 = [''imeta'',
                     ''url '' @ videoURL,
                     ''m '' @ mime,
                     ''alt '' @ (if height > width then ''Vertical Video'' else ''Horizontal Video''),
                     ''x '' @ videoHash,
                     ''size '' @ Sprintf_d fileSize,
                     ''dim '' @ Sprintf_d width @ ''x'' @ Sprintf_d height,
                     ''blurhash '' @ bhash]"
    by (simp add: n video_event_def)
  show "map sub_entry_key (tl (Tags ev ! 3)) = [''url'', ''m'', ''alt'', ''x'', ''size'', ''dim'', ''blurhash'']"
    by (simp add: t3 sub_entry_key_def)
  show "\<forall>i < 3. hd (Tags ev ! i) \<noteq> ''imeta''"
  proof (intro allI impI)
    fix i :: nat assume "i < 3"
    then have "i = 0 \<or> i = 1 \<or> i = 2" by arith
    moreover from \<open>i < 3\<close> have "Tags ev ! i = Tags (video_event isLegacy now pubKey height width fileSize videoHash bhash mime
        title publishedAt videoURL description descriptor) ! i" by (simp add: n)
    ultimately show "hd (Tags ev ! i) \<noteq> ''imeta''" by (auto simp: video_event_def)
  qed
next
  assume a: "addImageIMetaTag extractMediaInfo imagePath imageURL = Inr tag"
  then obtain width height fileHash bhash' mime' where
    t: "tag = [''imeta'', ''url '' @ imageURL, ''x '' @ fileHash,
               ''dim '' @ Sprintf_d width @ ''x'' @ Sprintf_d height, ''m '' @ mime', ''blurhash '' @ bhash']"
    by (auto simp: addImageIMetaTag_def split: sum.splits prod.splits)
  show "hd tag = ''imeta''" by (simp add: t)
  show "map sub_entry_key (tl tag) = [''url'', ''x'', ''dim'', ''m'', ''blurhash'']"
    by (simp add: t sub_entry_key_def)
qed

theorem imeta_order_witness:
  "createNip71Event False 0 signer0 1700000000 no_work 1920 1080 5 ''h'' ''b'' ''video/mp4''
     ''t'' ''1'' ''u'' ''c'' '''' = Some (Inr vertical_event0) \<and>
   map sub_entry_key (tl (Tags vertical_event0 ! 3)) = [''url'', ''m'', ''alt'', ''x'', ''size'', ''dim'', ''blurhash''] \<and>
   hd (Tags vertical_event0 ! 0) \<noteq> ''imeta'' \<and>
   addImageIMetaTag extract_image0 ''cat.png'' ''u'' =
     Inr [''imeta'', ''url u'', ''x h'', ''dim 1920x1080'', ''m image/png'', ''blurhash b''] \<and>
   map sub_entry_key (tl [''imeta'', ''url u'', ''x h'', ''dim 1920x1080'', ''m image/png'', ''blurhash b'']) =
     [''url'', ''x'', ''dim'', ''m'', ''blurhash'']"
proof -
  note t = imeta_order[of False 0 signer0 1700000000 no_work 1920 1080 5 "''h''" "''b''" "''video/mp4''"
      "''t''" "''1''" "''u''" "''c''" "''''" vertical_event0 extract_image0 "''cat.png''" "''u''"
      "[''imeta'', ''url u'', ''x h'', ''dim 1920x1080'', ''m image/png'', ''blurhash b'']"]
  from t video_vertical_built
  have v: "map sub_entry_key (tl (Tags vertical_event0 ! 3)) =
             [''url'', ''m'', ''alt'', ''x'', ''size'', ''dim'', ''blurhash'']" by blast
  from t image_tag_built
  have i: "map sub_entry_key (tl [''imeta'', ''url u'', ''x h'', ''dim 1920x1080'', ''m image/png'', ''blurhash b'']) =
             [''url'', ''x'', ''dim'', ''m'', ''blurhash'']" by blast
  have h: "hd (Tags vertical_event0 ! 0) \<noteq> ''imeta''" by (simp add: vertical_event0_def)
  from v i h video_vertical_built image_tag_built show ?thesis by blast
qed

section \<open>Properties of input validation and key normalization\<close>




text \<open>
  C9. A key that does not start with \<open>nsec\<close> is returned unchanged and without error,
  whatever the decoder would do, and so is the empty key; an error or a panic occurs
  only for a key that starts with \<open>nsec\<close>.
\<close>

theorem non_nsec_key_unchanged:
  "(\<not> HasPrefix key ''nsec'' \<longrightarrow> ConvertNIP19ToHex decode key = Inr key) \<and>
   ConvertNIP19ToHex decode '''' = Inr '''' \<and>
   (\<forall>f. ConvertNIP19ToHex decode key = Inl f \<longrightarrow> HasPrefix key ''nsec'')"
  by (auto simp: ConvertNIP19ToHex_def HasPrefix_def split: if_splits)

theorem non_nsec_key_unchanged_witness:
  "\<not> HasPrefix ''01'' ''nsec'' \<and>
   ConvertNIP19ToHex (nip19_Decode sys0) ''01'' = Inr ''01'' \<and>
   ConvertNIP19ToHex (nip19_Decode sys0) ''nsec1bad'' =
     Inl (Error ''failed to decode NIP-19 key: invalid bech32 string'') \<and>
   HasPrefix ''nsec1bad'' ''nsec''"
proof -
  have a: "\<not> HasPrefix ''01'' ''nsec''" by (simp add: HasPrefix_def)
  have b: "ConvertNIP19ToHex (nip19_Decode sys0) ''nsec1bad'' =
     Inl (Error ''failed to decode NIP-19 key: invalid bech32 string'')"
    by (simp add: ConvertNIP19ToHex_def HasPrefix_def sys0_def)
  from non_nsec_key_unchanged[of "''01''" "nip19_Decode sys0"] a
  have c: "ConvertNIP19ToHex (nip19_Decode sys0) ''01'' = Inr ''01''" by blast
  from non_nsec_key_unchanged[of "''nsec1bad''" "nip19_Decode sys0"] b
  have d: "HasPrefix ''nsec1bad'' ''nsec''" by blast
  from a b c d show ?thesis by blast
qed

section \<open>Properties of the video command\<close>

lemma sys0_calls:
  "DownloadVideo sys0 u = Inr ''/tmp/video-1.mp4''"
  "ExtractMediaInfo sys0 p k = Inr (1920, 1080, 5, ''h'', ''b'', ''video/mp4'')"
  "keyer_NewPlainKeySigner sys0 key = Inr signer0"
  "os_Stat sys0 ''relays.json'' = Some ''stat: no such file or directory''"
  "os_Stat sys0 '''' = Some ''stat: no such file or directory''"
  by (simp_all add: sys0_def)

lemma signer0_calls:
  "GetPublicKey signer0 = Inr ''pk''" "SignEvent signer0 e = Inr (e\<lparr>Sig := ''sig''\<rparr>)"
  by (simp_all add: signer0_def)

lemma args0_flags:
  "videoURL_flag (flag_Parse args0) = ''https://example.com/v.mp4''"
  "videoFile_flag (flag_Parse args0) = ''''"
  "privateKey_flag (flag_Parse args0) = ''01''"
  "title_flag (flag_Parse args0) = ''''"
  "description_flag (flag_Parse args0) = ''c''"
  "publishedAt_flag (flag_Parse args0) = ''1''"
  "relay_flag (flag_Parse args0) = ''relays.json''"
  "r_flag (flag_Parse args0) = ''''"
  "descriptor_flag (flag_Parse args0) = ''''"
  "diff_flag (flag_Parse args0) = 0"
  "isLegacy_flag (flag_Parse args0) = False"
  by (simp_all add: flag_Parse_def flag_value_def args0_def)

lemma HasPrefix_examples:
  "\<not> HasPrefix ''01'' ''nsec''"
  "\<not> HasPrefix ''relays.json'' ''ws://''" "\<not> HasPrefix ''relays.json'' ''wss://''"
  "\<not> HasPrefix '''' ''ws://''" "\<not> HasPrefix '''' ''wss://''"
  by (simp_all add: HasPrefix_def)

lemma parse_args0: "parseAndInitParams sys0 args0 = Inr (flag_Parse args0, signer0)"
  by (simp add: parseAndInitParams_def Let_def args0_flags HasPrefix_examples sys0_calls)

lemma video_args0: "main_video sys0 (flag_Parse args0) signer0 = Inr (flag_Parse args0, ''/tmp/video-1.mp4'')"
  by (simp add: main_video_def args0_flags sys0_calls)

lemma validate_args0:
  "ValidateInput (url_ParseRequestURI sys0) (strconv_ParseInt sys0) ''https://example.com/v.mp4'' '''' ''1'' = None"
  by (simp add: ValidateInput_def sys0_def HasPrefix_def)

lemma create_args0:
  "createNip71Event False 0 signer0 (Unix (time_Now sys0)) (nip13_DoWork sys0) 1080 1920 5 ''h'' ''b'' ''video/mp4''
     '''' ''1'' ''https://example.com/v.mp4'' ''c'' '''' = Some (Inr (untitled_event0\<lparr>Sig := ''''\<rparr>))"
  by (simp add: createNip71Event_eq video_event_def signer0_def Pow_event_def Sprintf_d_examples
      untitled_event0_def Unix_def sys0_def)

lemma loadRelays_unresolved:
  "\<not> HasPrefix p ''ws://'' \<Longrightarrow> \<not> HasPrefix p ''wss://'' \<Longrightarrow> os_Stat sys p \<noteq> None \<Longrightarrow>
   loadRelays sys p = Inr []"
  by (auto simp: loadRelays_def)

lemma main_publish_no_relays:
  "loadRelays sys (relay_flag flags) = Inr [] \<Longrightarrow> loadRelays sys (r_flag flags) = Inr [] \<Longrightarrow>
   main_publish sys lib flags signer event = ([PrintEvent event], Exit0)"
  by (simp add: main_publish_def Let_def)

lemma publish_args0: "main_publish sys0 relaylib0 (flag_Parse args0) signer0 ev = ([PrintEvent ev], Exit0)"
  by (rule main_publish_no_relays)
     (simp_all add: args0_flags loadRelays_unresolved HasPrefix_examples sys0_calls)

lemma main_args0: "main sys0 relaylib0 args0 = Some ([PrintEvent untitled_event0], Exit0)"
  by (simp add: main_def parse_args0 args0_flags video_args0 validate_args0 sys0_calls create_args0
      signer0_calls publish_args0) (simp add: untitled_event0_def)

text \<open>
  C5. The claim fails on the code: run with a URL and no title, the video command
  prints an event whose \<open>title\<close> tag is empty, not the URL of the video.
\<close>

theorem untitled_video_title_is_empty:
  "title_arg args0 = None \<and>
   url_arg args0 = Some ''https://example.com/v.mp4'' \<and>
   main sys0 relaylib0 args0 = Some ([PrintEvent untitled_event0], Exit0) \<and>
   Tags untitled_event0 ! 1 = [''title'', ''''] \<and>
   Tags untitled_event0 ! 1 \<noteq> [''title'', ''https://example.com/v.mp4'']"
  by (simp add: main_args0) (simp add: args0_def untitled_event0_def)

lemma parseAndInitParams_Inl: "parseAndInitParams sys args = Inl ex \<Longrightarrow> ex \<noteq> Exit0"
  by (auto simp: parseAndInitParams_def Let_def split: if_splits sum.splits prod.splits any.splits)

lemma parseAndInitParams_relay:
  "parseAndInitParams sys args = Inr (flags, signer) \<Longrightarrow>
   relay_flag flags = flag_value '''' (relay_arg args) \<and> r_flag flags = flag_value '''' (r_arg args)"
  by (auto simp: parseAndInitParams_def Let_def flag_Parse_def split: if_splits sum.splits prod.splits any.splits)

lemma main_video_Inl: "main_video sys flags signer = Inl ex \<Longrightarrow> ex \<noteq> Exit0"
  by (auto simp: main_video_def Let_def split: if_splits sum.splits option.splits any.splits)

lemma main_video_relay:
  "main_video sys flags signer = Inr (flags1, videoPath) \<Longrightarrow>
   relay_flag flags1 = relay_flag flags \<and> r_flag flags1 = r_flag flags"
  by (auto simp: main_video_def Let_def split: if_splits sum.splits option.splits any.splits)

lemma main_cases:
  assumes "main sys lib args = Some (out, ex)"
  shows "(out = [] \<and> ex \<noteq> Exit0) \<or>
         (\<exists>flags signer flags1 videoPath ev.
            parseAndInitParams sys args = Inr (flags, signer) \<and>
            main_video sys flags signer = Inr (flags1, videoPath) \<and>
            main_publish sys lib flags1 signer ev = (out, ex))"
proof (cases "parseAndInitParams sys args")
  case (Inl e)
  with assms parseAndInitParams_Inl[OF Inl] show ?thesis by (simp add: main_def)
next
  case (Inr fs)
  obtain flags signer where fs: "fs = (flags, signer)" by (cases fs)
  show ?thesis
  proof (cases "main_video sys flags signer")
    case (Inl e)
    with assms Inr fs main_video_Inl[OF Inl] show ?thesis by (auto simp: main_def split: if_splits)
  next
    case v: (Inr fp)
    obtain flags1 videoPath where fp: "fp = (flags1, videoPath)" by (cases fp)
    from assms Inr fs v fp show ?thesis
      by (auto simp: main_def split: if_splits option.splits sum.splits prod.splits)
  qed
qed

text \<open>
  C10. In the video command, when a relay flag is set but each of the two relay
  parameters is neither a \<open>ws://\<close> or \<open>wss://\<close> URI nor the path of an existing file,
  a run that ends either printed the signed event and nothing else and ended
  successfully, or ended in a failure before it printed anything: no relay is
  contacted and the relay stage writes no error or warning.
\<close>

theorem no_relays_silent_skip:
  assumes run: "main sys lib args = Some (out, ex)"
    and given: "flag_value '''' (relay_arg args) \<noteq> '''' \<or> flag_value '''' (r_arg args) \<noteq> ''''"
    and unresolved: "\<forall>p \<in> {flag_value '''' (relay_arg args), flag_value '''' (r_arg args)}.
                       \<not> HasPrefix p ''ws://'' \<and> \<not> HasPrefix p ''wss://'' \<and> os_Stat sys p \<noteq> None"
  shows "(\<exists>ev. out = [PrintEvent ev] \<and> ex = Exit0) \<or> (out = [] \<and> ex \<noteq> Exit0)"
proof -
  from main_cases[OF run] show ?thesis
  proof
    assume "out = [] \<and> ex \<noteq> Exit0" then show ?thesis by blast
  next
    assume "\<exists>flags signer flags1 videoPath ev.
            parseAndInitParams sys args = Inr (flags, signer) \<and>
            main_video sys flags signer = Inr (flags1, videoPath) \<and>
            main_publish sys lib flags1 signer ev = (out, ex)"
    then obtain flags signer flags1 videoPath ev where
      p: "parseAndInitParams sys args = Inr (flags, signer)" and
      v: "main_video sys flags signer = Inr (flags1, videoPath)" and
      m: "main_publish sys lib flags1 signer ev = (out, ex)" by blast
    from parseAndInitParams_relay[OF p] main_video_relay[OF v]
    have f: "relay_flag flags1 = flag_value '''' (relay_arg args)" "r_flag flags1 = flag_value '''' (r_arg args)"
      by simp_all
    from unresolved f have "loadRelays sys (relay_flag flags1) = Inr []" "loadRelays sys (r_flag flags1) = Inr []"
      by (simp_all add: loadRelays_unresolved)
    then have "main_publish sys lib flags1 signer ev = ([PrintEvent ev], Exit0)"
      by (rule main_publish_no_relays)
    with m show ?thesis by auto
  qed
qed

theorem no_relays_silent_skip_witness:
  "main sys0 relaylib0 args0 = Some ([PrintEvent untitled_event0], Exit0) \<and>
   flag_value '''' (relay_arg args0) = ''relays.json'' \<and>
   flag_value '''' (r_arg args0) = '''' \<and>
   \<not> HasPrefix ''relays.json'' ''ws://'' \<and> \<not> HasPrefix ''relays.json'' ''wss://'' \<and>
   os_Stat sys0 ''relays.json'' \<noteq> None \<and>
   \<not> HasPrefix '''' ''ws://'' \<and> \<not> HasPrefix '''' ''wss://'' \<and> os_Stat sys0 '''' \<noteq> None \<and>
   [PrintEvent untitled_event0] \<noteq> []"
proof -
  have a: "flag_value '''' (relay_arg args0) = ''relays.json''" "flag_value '''' (r_arg args0) = ''''"
    by (simp_all add: flag_value_def args0_def)
  have g: "flag_value '''' (relay_arg args0) \<noteq> '''' \<or> flag_value '''' (r_arg args0) \<noteq> ''''"
    by (simp add: a)
  have u: "\<forall>p \<in> {flag_value '''' (relay_arg args0), flag_value '''' (r_arg args0)}.
             \<not> HasPrefix p ''ws://'' \<and> \<not> HasPrefix p ''wss://'' \<and> os_Stat sys0 p \<noteq> None"
    by (simp add: a HasPrefix_examples sys0_calls)
  from no_relays_silent_skip[OF main_args0 g u] main_args0 a u show ?thesis by simp
qed

section \<open>Properties of the relay publisher\<close>

lemma PublishEvent_append:
  "PublishEvent lib ev sg (us @ vs) = PublishEvent lib ev sg us @ PublishEvent lib ev sg vs"
  by (induction us) (auto split: sum.splits prod.splits option.splits)

lemma PublishEvent_auth_required:
  assumes "RelayConnect lib u = Inr relay" and "Publish lib relay ev = (Some err, relay1)"
    and "HasPrefix err ''msg: auth-required:''"
  shows "PublishEvent lib ev sg [u] =
     [Call_RelayConnect u, Call_Publish u, Call_Auth u] @
     (case Auth lib relay1 (SignEvent sg) of
        (Some authErr, _) \<Rightarrow> [LogPrintf (''Error sending auth event to relay '' @ u @ '': '' @ authErr)]
      | (None, relay2) \<Rightarrow>
          Call_Publish u #
          (case Publish lib relay2 ev of
             (Some err2, _) \<Rightarrow> [LogPrintf (''Error publishing event to relay '' @ u @ '' after auth: '' @ err2)]
           | (None, _) \<Rightarrow> [FmtPrintf (''Published event to relay '' @ u @ '' successfully after auth\<newline>'')]))"
  using assms by (simp split: prod.splits option.splits)

lemma relaylib0_calls:
  "RelayConnect relaylib0 ''wss://a'' = Inr False"
  "RelayConnect relaylib0 ''wss://b'' = Inr False"
  "RelayConnect relaylib0 ''wss://down'' = Inl ''dial failed''"
  "Publish relaylib0 False e = (Some ''msg: auth-required: sign in'', False)"
  "Publish relaylib0 True e = (None, True)"
  "Auth relaylib0 False (SignEvent signer0) = (None, True)"
  by (simp_all add: relaylib0_def signer0_def)

lemma relaylib1_calls:
  "RelayConnect relaylib1 ''wss://a'' = Inr False"
  "RelayConnect relaylib1 ''wss://b'' = Inr False"
  "Publish relaylib1 False e = (Some ''msg: auth-required: sign in'', False)"
  "Auth relaylib1 False f = (Some ''restricted: not allowed'', False)"
  by (simp_all add: relaylib1_def relaylib0_def)

lemma auth_prefix0: "HasPrefix ''msg: auth-required: sign in'' ''msg: auth-required:''"
  by (simp add: HasPrefix_def)

text \<open>
  C3 (as amended). For a relay of the list, at any position, that is reached and whose
  first publish is rejected with an error that has the auth-required prefix: what the
  publisher does for the whole list is what it does for the relays before, for this
  relay, and for the relays after, one after the other, so every remaining relay is
  still attempted; for this relay it calls \<open>relay.Auth\<close> exactly once, with the
  signer's \<open>SignEvent\<close> as the signing function; when the authentication succeeds it
  publishes once more, exactly once, and writes one line with the outcome; when the
  authentication fails it does not publish again and writes one line that names this
  relay only.
\<close>

theorem auth_challenge_retry:
  assumes "RelayConnect lib u = Inr relay" and "Publish lib relay ev = (Some err, relay1)"
    and "HasPrefix err ''msg: auth-required:''"
  shows "PublishEvent lib ev sg (us @ u # vs) =
           PublishEvent lib ev sg us @ PublishEvent lib ev sg [u] @ PublishEvent lib ev sg vs \<and>
         PublishEvent lib ev sg [u] =
           [Call_RelayConnect u, Call_Publish u, Call_Auth u] @
           (case Auth lib relay1 (SignEvent sg) of
              (Some authErr, _) \<Rightarrow> [LogPrintf (''Error sending auth event to relay '' @ u @ '': '' @ authErr)]
            | (None, relay2) \<Rightarrow>
                Call_Publish u #
                (case Publish lib relay2 ev of
                   (Some err2, _) \<Rightarrow> [LogPrintf (''Error publishing event to relay '' @ u @ '' after auth: '' @ err2)]
                 | (None, _) \<Rightarrow> [FmtPrintf (''Published event to relay '' @ u @ '' successfully after auth\<newline>'')])) \<and>
         count_list (PublishEvent lib ev sg [u]) (Call_Auth u) = 1 \<and>
         count_list (PublishEvent lib ev sg [u]) (Call_Publish u) =
           (if fst (Auth lib relay1 (SignEvent sg)) = None then 2 else 1)"
proof -
  have "PublishEvent lib ev sg (us @ u # vs) = PublishEvent lib ev sg us @ PublishEvent lib ev sg ([u] @ vs)"
    by (simp add: PublishEvent_append)
  then have a: "PublishEvent lib ev sg (us @ u # vs) =
           PublishEvent lib ev sg us @ PublishEvent lib ev sg [u] @ PublishEvent lib ev sg vs"
    by (simp only: PublishEvent_append)
  note b = PublishEvent_auth_required[OF assms, of sg]
  have c: "count_list (PublishEvent lib ev sg [u]) (Call_Auth u) = 1"
    unfolding b by (simp split: prod.splits option.splits)
  have d: "count_list (PublishEvent lib ev sg [u]) (Call_Publish u) =
           (if fst (Auth lib relay1 (SignEvent sg)) = None then 2 else 1)"
    unfolding b by (simp split: prod.splits option.splits)
  from a b c d show ?thesis by blast
qed

theorem auth_challenge_retry_witness:
  "RelayConnect relaylib0 ''wss://a'' = Inr False \<and>
   Publish relaylib0 False event0 = (Some ''msg: auth-required: sign in'', False) \<and>
   HasPrefix ''msg: auth-required: sign in'' ''msg: auth-required:'' \<and>
   PublishEvent relaylib0 event0 signer0 ([''wss://down''] @ ''wss://a'' # [''wss://b'']) =
     PublishEvent relaylib0 event0 signer0 [''wss://down''] @
     PublishEvent relaylib0 event0 signer0 [''wss://a''] @
     PublishEvent relaylib0 event0 signer0 [''wss://b''] \<and>
   count_list (PublishEvent relaylib0 event0 signer0 [''wss://a'']) (Call_Auth ''wss://a'') = 1 \<and>
   count_list (PublishEvent relaylib0 event0 signer0 [''wss://a'']) (Call_Publish ''wss://a'') = 2"
proof -
  note h = relaylib0_calls(1) relaylib0_calls(4)[of event0] auth_prefix0
  from auth_challenge_retry[OF h, of signer0 "[''wss://down'']" "[''wss://b'']"] h
  show ?thesis by (simp add: relaylib0_calls)
qed

text \<open>
  The claim C3 as it is stated fails where the authentication is rejected: the
  original publish is then not retried, the relay is logged as failed after a single
  publish attempt, and the publisher goes on to the next relay.
\<close>

theorem auth_failure_no_retry_counterexample:
  "PublishEvent relaylib1 event0 signer0 [''wss://a'', ''wss://b''] =
     [Call_RelayConnect ''wss://a'', Call_Publish ''wss://a'', Call_Auth ''wss://a'',
      LogPrintf ''Error sending auth event to relay wss://a: restricted: not allowed'',
      Call_RelayConnect ''wss://b'', Call_Publish ''wss://b'', Call_Auth ''wss://b'',
      LogPrintf ''Error sending auth event to relay wss://b: restricted: not allowed''] \<and>
   count_list (PublishEvent relaylib1 event0 signer0 [''wss://a'', ''wss://b'']) (Call_Publish ''wss://a'') = 1"
  by (simp add: relaylib1_calls auth_prefix0)

section \<open>Properties of the upload\<close>

lemma Unix_five_minutes: "Unix (t + 5 * Minute) = Unix t + 300"
  by (simp add: Unix_def Minute_def)

lemma createAuthorizationEvent_Inr:
  assumes "createAuthorizationEvent sys signer ''upload''
             [[''x'', sha256Hash], [''t'', ''upload''],
              [''expiration'', Sprintf_d (Unix (time_Now sys + 5 * Minute))]] = Inr authEventJSON"
  shows "\<exists>pubKeyHex signed eventJSON.
           GetPublicKey signer = Inr pubKeyHex \<and>
           SignEvent signer (upload_auth_event sys pubKeyHex sha256Hash) = Inr signed \<and>
           json_Marshal sys signed = Inr eventJSON \<and>
           authEventJSON = base64_EncodeToString sys eventJSON"
  using assms
  by (auto simp: createAuthorizationEvent_def upload_auth_event_def Let_def
           split: sum.splits)

lemma UploadFile_request_Inr:
  assumes "UploadFile_request sys server filePath signer = Inr req"
  shows "\<exists>file authEventJSON.
           os_Open sys filePath = Inr file \<and>
           createAuthorizationEvent sys signer ''upload''
             [[''x'', hex_EncodeToString sys (sha256_Sum sys (Contents file))], [''t'', ''upload''],
              [''expiration'', Sprintf_d (Unix (time_Now sys + 5 * Minute))]] = Inr authEventJSON \<and>
           Header req ''Authorization'' = Some (''Nostr '' @ authEventJSON) \<and>
           Method req = ''PUT'' \<and> ReqURL req = server @ ''/upload'' \<and> Body req = Contents file"
  using assms
  by (auto simp: UploadFile_request_def Let_def split: sum.splits option.splits if_splits)

lemma UploadFile_response:
  assumes "UploadFile_request sys server filePath signer = Inr req" and "client_Do sys req = Inr resp"
  shows "UploadFile sys server filePath signer =
           (if StatusCode resp = 200 \<or> StatusCode resp = 201 \<or> StatusCode resp = 202
            then json_Decode sys (RespBody resp)
            else Inl (''upload failed: '' @ RespBody resp @ '', code '' @ Sprintf_d (StatusCode resp)))"
  using assms by (simp add: UploadFile_def split: sum.splits)

lemma sys0_upload_calls:
  "os_Open sys0 ''v.mp4'' = Inr file0"
  "hex_EncodeToString sys0 b = ''h''"
  "filetype_Match sys0 b = Inr ''video/mp4''"
  "json_Marshal sys0 e = Inr ''{}''"
  "base64_EncodeToString sys0 j = ''e30=''"
  "http_NewRequest sys0 m u = None"
  "client_Do sys0 r = Inr \<lparr>StatusCode = 200, RespBody = ''{}''\<rparr>"
  "json_Decode sys0 b = Inr [''url'' \<mapsto> AString ''https://cdn.example/h.mp4'']"
  by (simp_all add: sys0_def)

lemma sys1_upload_calls:
  "os_Open sys1 ''v.mp4'' = Inr file0"
  "hex_EncodeToString sys1 b = ''h''"
  "filetype_Match sys1 b = Inr ''video/mp4''"
  "json_Marshal sys1 e = Inr ''{}''"
  "base64_EncodeToString sys1 j = ''e30=''"
  "http_NewRequest sys1 m u = None"
  "client_Do sys1 r = Inr \<lparr>StatusCode = 200, RespBody = ''{}''\<rparr>"
  "json_Decode sys1 b = Inl ''invalid character''"
  by (simp_all add: sys1_def sys0_def)

lemma file0_fields:
  "Contents file0 = ''video''" "CopyErr file0 = None" "StatSize file0 = Inr 5" "ReadErr file0 = None"
  by (simp_all add: file0_def)

lemma auth_json0: "createAuthorizationEvent sys0 signer0 verb tags = Inr ''e30=''"
  by (simp add: createAuthorizationEvent_def Let_def signer0_calls sys0_upload_calls)

lemma auth_json1: "createAuthorizationEvent sys1 signer0 verb tags = Inr ''e30=''"
  by (simp add: createAuthorizationEvent_def Let_def signer0_calls sys1_upload_calls)

lemma request_sys0: "UploadFile_request sys0 ''https://cdn.example'' ''v.mp4'' signer0 = Inr request0"
  by (simp add: UploadFile_request_def Let_def sys0_upload_calls file0_fields auth_json0
      Sprintf_d_examples request0_def)

lemma request_sys1: "UploadFile_request sys1 ''https://cdn.example'' ''v.mp4'' signer0 = Inr request0"
  by (simp add: UploadFile_request_def Let_def sys1_upload_calls file0_fields auth_json1
      Sprintf_d_examples request0_def)

text \<open>
  C8 (as amended). Whenever \<open>UploadFile\<close> has built its request, the event handed to the
  signer, whose signed serialization the \<open>Authorization\<close> header carries, has kind
  24242, a \<open>t upload\<close> tag, an \<open>x\<close> tag with the hex-encoded SHA-256 of the file's
  contents and an \<open>expiration\<close> tag of the current Unix time plus 300 seconds; and for
  every response, the upload fails with the error \<open>upload failed\<close> when the status is
  none of 200, 201, 202, and otherwise its result is the result of decoding the
  response body: the descriptor, or the error of the decoder.
\<close>

theorem upload_authorization_and_status:
  assumes "UploadFile_request sys server filePath signer = Inr req"
  shows "(\<exists>file pubKeyHex signed eventJSON.
            os_Open sys filePath = Inr file \<and>
            GetPublicKey signer = Inr pubKeyHex \<and>
            SignEvent signer (upload_auth_event sys pubKeyHex (hex_EncodeToString sys (sha256_Sum sys (Contents file)))) = Inr signed \<and>
            json_Marshal sys signed = Inr eventJSON \<and>
            Header req ''Authorization'' = Some (''Nostr '' @ base64_EncodeToString sys eventJSON) \<and>
            Kind (upload_auth_event sys pubKeyHex (hex_EncodeToString sys (sha256_Sum sys (Contents file)))) = 24242 \<and>
            {[''t'', ''upload''],
             [''x'', hex_EncodeToString sys (sha256_Sum sys (Contents file))],
             [''expiration'', Sprintf_d (Unix (time_Now sys) + 300)]}
              \<subseteq> set (Tags (upload_auth_event sys pubKeyHex (hex_EncodeToString sys (sha256_Sum sys (Contents file)))))) \<and>
         (\<forall>resp. client_Do sys req = Inr resp \<longrightarrow>
            UploadFile sys server filePath signer =
              (if StatusCode resp = 200 \<or> StatusCode resp = 201 \<or> StatusCode resp = 202
               then json_Decode sys (RespBody resp)
               else Inl (''upload failed: '' @ RespBody resp @ '', code '' @ Sprintf_d (StatusCode resp))))"
proof (intro conjI allI impI)
  from UploadFile_request_Inr[OF assms] obtain fl authEventJSON where
    f: "os_Open sys filePath = Inr fl" and
    c: "createAuthorizationEvent sys signer ''upload''
             [[''x'', hex_EncodeToString sys (sha256_Sum sys (Contents fl))], [''t'', ''upload''],
              [''expiration'', Sprintf_d (Unix (time_Now sys + 5 * Minute))]] = Inr authEventJSON" and
    h: "Header req ''Authorization'' = Some (''Nostr '' @ authEventJSON)" by blast
  from createAuthorizationEvent_Inr[OF c] obtain pubKeyHex signed eventJSON where
    g: "GetPublicKey signer = Inr pubKeyHex" and
    s: "SignEvent signer (upload_auth_event sys pubKeyHex (hex_EncodeToString sys (sha256_Sum sys (Contents fl)))) = Inr signed" and
    m: "json_Marshal sys signed = Inr eventJSON" and
    e: "authEventJSON = base64_EncodeToString sys eventJSON" by blast
  have k: "Kind (upload_auth_event sys pubKeyHex (hex_EncodeToString sys (sha256_Sum sys (Contents fl)))) = 24242"
    by (simp add: upload_auth_event_def)
  have t: "{[''t'', ''upload''],
             [''x'', hex_EncodeToString sys (sha256_Sum sys (Contents fl))],
             [''expiration'', Sprintf_d (Unix (time_Now sys) + 300)]}
              \<subseteq> set (Tags (upload_auth_event sys pubKeyHex (hex_EncodeToString sys (sha256_Sum sys (Contents fl)))))"
    by (simp add: upload_auth_event_def Unix_five_minutes)
  from f g s m h e k t
  show "\<exists>file pubKeyHex signed eventJSON.
            os_Open sys filePath = Inr file \<and>
            GetPublicKey signer = Inr pubKeyHex \<and>
            SignEvent signer (upload_auth_event sys pubKeyHex (hex_EncodeToString sys (sha256_Sum sys (Contents file)))) = Inr signed \<and>
            json_Marshal sys signed = Inr eventJSON \<and>
            Header req ''Authorization'' = Some (''Nostr '' @ base64_EncodeToString sys eventJSON) \<and>
            Kind (upload_auth_event sys pubKeyHex (hex_EncodeToString sys (sha256_Sum sys (Contents file)))) = 24242 \<and>
            {[''t'', ''upload''],
             [''x'', hex_EncodeToString sys (sha256_Sum sys (Contents file))],
             [''expiration'', Sprintf_d (Unix (time_Now sys) + 300)]}
              \<subseteq> set (Tags (upload_auth_event sys pubKeyHex (hex_EncodeToString sys (sha256_Sum sys (Contents file)))))"
    by blast
next
  fix resp assume "client_Do sys req = Inr resp"
  from UploadFile_response[OF assms this]
  show "UploadFile sys server filePath signer =
              (if StatusCode resp = 200 \<or> StatusCode resp = 201 \<or> StatusCode resp = 202
               then json_Decode sys (RespBody resp)
               else Inl (''upload failed: '' @ RespBody resp @ '', code '' @ Sprintf_d (StatusCode resp)))" .
qed

theorem upload_authorization_and_status_witness:
  "UploadFile_request sys0 ''https://cdn.example'' ''v.mp4'' signer0 = Inr request0 \<and>
   client_Do sys0 request0 = Inr \<lparr>StatusCode = 200, RespBody = ''{}''\<rparr> \<and>
   UploadFile sys0 ''https://cdn.example'' ''v.mp4'' signer0 = Inr [''url'' \<mapsto> AString ''https://cdn.example/h.mp4'']"
proof -
  from upload_authorization_and_status[OF request_sys0]
  have "\<forall>resp. client_Do sys0 request0 = Inr resp \<longrightarrow>
            UploadFile sys0 ''https://cdn.example'' ''v.mp4'' signer0 =
              (if StatusCode resp = 200 \<or> StatusCode resp = 201 \<or> StatusCode resp = 202
               then json_Decode sys0 (RespBody resp)
               else Inl (''upload failed: '' @ RespBody resp @ '', code '' @ Sprintf_d (StatusCode resp)))"
    by blast
  with sys0_upload_calls(7)[of request0]
  have "UploadFile sys0 ''https://cdn.example'' ''v.mp4'' signer0 = json_Decode sys0 ''{}''"
    by simp
  with request_sys0 sys0_upload_calls(7)[of request0] show ?thesis
    by (simp add: sys0_upload_calls)
qed

text \<open>
  The claim C8 as it is stated fails for a response with status 200 whose body does not
  decode: the upload is not successful, \<open>UploadFile\<close> returns the error of the decoder.
\<close>

theorem upload_status_ok_body_bad_counterexample:
  "UploadFile_request sys1 ''https://cdn.example'' ''v.mp4'' signer0 = Inr request0 \<and>
   client_Do sys1 request0 = Inr \<lparr>StatusCode = 200, RespBody = ''{}''\<rparr> \<and>
   UploadFile sys1 ''https://cdn.example'' ''v.mp4'' signer0 = Inl ''invalid character''"
  by (simp add: UploadFile_def request_sys1 sys1_upload_calls)

end
